theory Spec2Isabelle
  imports Complex_Main
begin

section \<open>Tensors\<close>

text \<open>
  The sources build MXNet symbols; a symbol is modelled by the value it denotes once its
  variables are bound. A tensor is its shape together with its elements in row-major
  order; Python floats are read as real numbers. Shape inference failures of the tensor
  runtime are not part of the sources: the operations below are meant for operands of
  matching shapes, and the theorems state the shapes they rely on.
\<close>

record tensor =
  shape :: "nat list"
  dat :: "real list"

section \<open>Errors, formatting and variables\<close>

datatype error =
    ConfigurationError string
  | NotImplementedError
  | AssertionError
  | ZeroDivisionError
  | IndexError
  | TypeError
  | MXNetError

text \<open>
  Modelled from the spec: \<open>utils.check_condition\<close> is called by the sources but is not
  among them. The spec describes the failure of a checked precondition as a configuration
  error raised immediately, carrying the message given at the call.
\<close>

definition check_condition :: "bool \<Rightarrow> string \<Rightarrow> error + unit" where
  "check_condition condition error_message =
     (if condition then Inr () else Inl (ConfigurationError error_message))"

text \<open>Python's \<open>%d\<close> and \<open>%s\<close> conversions.\<close>

definition digit_char :: "nat \<Rightarrow> char" where
  "digit_char n = char_of (48 + n)"

fun show_nat :: "nat \<Rightarrow> string" where
  "show_nat n = (if n < 10 then [digit_char n] else show_nat (n div 10) @ [digit_char (n mod 10)])"

declare show_nat.simps [simp del]

definition show_int :: "int \<Rightarrow> string" where
  "show_int i = (if i < 0 then CHR ''-'' # show_nat (nat (- i)) else show_nat (nat i))"

definition show_opt :: "string option \<Rightarrow> string" where
  "show_opt p = (case p of None \<Rightarrow> ''None'' | Some s \<Rightarrow> s)"

datatype initializer = Constant real | LSTMBias real

record variable =
  var_name :: string
  var_shape :: "int list option"
  var_init :: "initializer option"

definition Variable :: "string \<Rightarrow> int list option \<Rightarrow> initializer option \<Rightarrow> variable" where
  "Variable name shp ini = \<lparr>var_name = name, var_shape = shp, var_init = ini\<rparr>"

text \<open>
  \<open>mx.rnn.RNNParams\<close>: the container of a cell's variables. \<open>get\<close> prefixes the name and
  creates the variable only if the container has none of that name yet.
\<close>

record RNNParams =
  rp_prefix :: string
  rp_params :: "(string \<times> variable) list"

definition RNNParams_init :: "string \<Rightarrow> RNNParams" where
  "RNNParams_init prefix = \<lparr>rp_prefix = prefix, rp_params = []\<rparr>"

definition RNNParams_get ::
  "RNNParams \<Rightarrow> string \<Rightarrow> int list option \<Rightarrow> initializer option \<Rightarrow> variable \<times> RNNParams" where
  "RNNParams_get P name shp ini =
     (let n = rp_prefix P @ name in
      case map_of (rp_params P) n of
        Some v \<Rightarrow> (v, P)
      | None \<Rightarrow> (let v = Variable n shp ini in (v, P\<lparr>rp_params := rp_params P @ [(n, v)]\<rparr>)))"

section \<open>The tensor runtime\<close>

text \<open>
  The operators of MXNet that the sources call, after MXNet's operator documentation.
  \<open>ravel\<close> is the row-major offset of a multi-index, \<open>unravel\<close> its inverse, and
  \<open>tabulate\<close> builds the tensor of a given shape from a function of the multi-index.
\<close>

fun ravel :: "nat list \<Rightarrow> nat list \<Rightarrow> nat" where
  "ravel (d # ds) (i # ix) = i * prod_list ds + ravel ds ix"
| "ravel _ _ = 0"

fun unravel :: "nat list \<Rightarrow> nat \<Rightarrow> nat list" where
  "unravel [] k = []"
| "unravel (d # ds) k = (k div prod_list ds) # unravel ds (k mod prod_list ds)"

definition elem :: "tensor \<Rightarrow> nat list \<Rightarrow> real" where
  "elem t ix = dat t ! ravel (shape t) ix"

definition tabulate :: "nat list \<Rightarrow> (nat list \<Rightarrow> real) \<Rightarrow> tensor" where
  "tabulate shp f = \<lparr>shape = shp, dat = map (\<lambda>k. f (unravel shp k)) [0..<prod_list shp]\<rparr>"

definition well_shaped :: "tensor \<Rightarrow> bool" where
  "well_shaped t = (length (dat t) = prod_list (shape t))"

definition valid_index :: "nat list \<Rightarrow> nat list \<Rightarrow> bool" where
  "valid_index shp ix = list_all2 (<) ix shp"

definition bindE :: "error + 'a \<Rightarrow> ('a \<Rightarrow> error + 'b) \<Rightarrow> error + 'b" where
  "bindE r f = (case r of Inl e \<Rightarrow> Inl e | Inr x \<Rightarrow> f x)"

text \<open>Python's list indexing with a non-negative index.\<close>

definition py_get :: "'a list \<Rightarrow> nat \<Rightarrow> error + 'a" where
  "py_get xs i = (if i < length xs then Inr (xs ! i) else Inl IndexError)"

subsection \<open>Elementwise operators\<close>

definition map_tensor :: "(real \<Rightarrow> real) \<Rightarrow> tensor \<Rightarrow> tensor" where
  "map_tensor f t = \<lparr>shape = shape t, dat = map f (dat t)\<rparr>"

text \<open>\<open>+\<close>, \<open>*\<close>, \<open>_plus\<close> and \<open>_mul\<close> on two symbols of the same shape.\<close>

definition elemwise :: "(real \<Rightarrow> real \<Rightarrow> real) \<Rightarrow> tensor \<Rightarrow> tensor \<Rightarrow> tensor" where
  "elemwise f a b = \<lparr>shape = shape a, dat = map2 f (dat a) (dat b)\<rparr>"

definition zeros_like :: "tensor \<Rightarrow> tensor" where
  "zeros_like t = map_tensor (\<lambda>_. 0) t"

definition sigmoid :: "real \<Rightarrow> real" where
  "sigmoid v = 1 / (1 + exp (- v))"

definition relu :: "real \<Rightarrow> real" where
  "relu v = max 0 v"

definition rsqrt :: "real \<Rightarrow> real" where
  "rsqrt v = 1 / sqrt v"

subsection \<open>Broadcasting operators\<close>

text \<open>
  The shorter shape is padded with ones on the left; along an axis where an operand has
  size 1, its only element is used for every index.
\<close>

definition pad_shape :: "nat \<Rightarrow> nat list \<Rightarrow> nat list" where
  "pad_shape n shp = replicate (n - length shp) 1 @ shp"

definition bindex :: "nat list \<Rightarrow> nat list \<Rightarrow> nat list" where
  "bindex shp ix = map2 (\<lambda>d i. if d = 1 then 0 else i) shp ix"

definition broadcast_op :: "(real \<Rightarrow> real \<Rightarrow> real) \<Rightarrow> tensor \<Rightarrow> tensor \<Rightarrow> tensor" where
  "broadcast_op f a b =
     (let n = max (length (shape a)) (length (shape b));
          sa = pad_shape n (shape a);
          sb = pad_shape n (shape b)
      in tabulate (map2 max sa sb)
           (\<lambda>ix. f (dat a ! ravel sa (bindex sa ix)) (dat b ! ravel sb (bindex sb ix))))"

definition broadcast_minus :: "tensor \<Rightarrow> tensor \<Rightarrow> tensor" where
  "broadcast_minus = broadcast_op (-)"

definition broadcast_mul :: "tensor \<Rightarrow> tensor \<Rightarrow> tensor" where
  "broadcast_mul = broadcast_op (*)"

definition broadcast_add :: "tensor \<Rightarrow> tensor \<Rightarrow> tensor" where
  "broadcast_add = broadcast_op (+)"

text \<open>
  \<open>broadcast_to\<close>: a 0 in the target shape keeps the size of that axis; a negative size is
  rejected.
\<close>

definition broadcast_to :: "tensor \<Rightarrow> int list \<Rightarrow> error + tensor" where
  "broadcast_to t target =
     (if list_ex (\<lambda>s. s < 0) target \<or> length target \<noteq> length (shape t) then Inl MXNetError
      else Inr (tabulate (map2 (\<lambda>s d. if s = 0 then d else nat s) target (shape t))
                  (\<lambda>ix. elem t (bindex (shape t) ix))))"

definition expand_dims :: "tensor \<Rightarrow> nat \<Rightarrow> tensor" where
  "expand_dims t axis = t\<lparr>shape := take axis (shape t) @ [1] @ drop axis (shape t)\<rparr>"

subsection \<open>Reductions and products\<close>

text \<open>\<open>mean(axis=1, keepdims=True)\<close> of a matrix.\<close>

definition mean_axis1 :: "tensor \<Rightarrow> tensor" where
  "mean_axis1 t =
     tabulate [shape t ! 0, 1]
       (\<lambda>ix. (\<Sum>j\<leftarrow>[0..<shape t ! 1]. elem t [ix ! 0, j]) / real (shape t ! 1))"

text \<open>
  \<open>FullyConnected\<close>: the data are read as a matrix whose rows are the elements of the
  first axis; the weight has one row per output unit.
\<close>

definition FullyConnected :: "tensor \<Rightarrow> tensor \<Rightarrow> tensor \<Rightarrow> nat \<Rightarrow> tensor" where
  "FullyConnected data weight bias num_hidden =
     (let d = prod_list (tl (shape data))
      in tabulate [hd (shape data), num_hidden]
           (\<lambda>ix. (\<Sum>j\<leftarrow>[0..<d]. dat data ! (ix ! 0 * d + j) * dat weight ! (ix ! 1 * d + j))
                   + dat bias ! (ix ! 1)))"

definition batch_dot :: "tensor \<Rightarrow> tensor \<Rightarrow> bool \<Rightarrow> tensor" where
  "batch_dot lhs rhs transpose_b =
     tabulate [shape lhs ! 0, shape lhs ! 1, shape rhs ! (if transpose_b then 1 else 2)]
       (\<lambda>ix. \<Sum>j\<leftarrow>[0..<shape lhs ! 2].
                elem lhs [ix ! 0, ix ! 1, j]
                  * elem rhs (if transpose_b then [ix ! 0, ix ! 2, j] else [ix ! 0, j, ix ! 2]))"

text \<open>\<open>softmax\<close> along the last axis.\<close>

definition softmax :: "tensor \<Rightarrow> tensor" where
  "softmax t =
     tabulate (shape t)
       (\<lambda>ix. exp (elem t ix) / (\<Sum>j\<leftarrow>[0..<last (shape t)]. exp (elem t (butlast ix @ [j]))))"

text \<open>
  \<open>SequenceMask\<close> with \<open>use_sequence_length=True\<close>: the data have the time axis first and
  the batch axis second. The length of batch entry \<open>b\<close> is converted to an integer, which
  truncates it towards zero, and the positions from that integer to the end of the time
  axis are overwritten with \<open>value\<close>. The positions are counted with an unsigned index:
  from a negative integer the count starts beyond the end, and nothing is overwritten.
\<close>

definition seq_pos :: "real \<Rightarrow> int" where
  "seq_pos l = (if 0 \<le> l then \<lfloor>l\<rfloor> else \<lceil>l\<rceil>)"

definition SequenceMask :: "tensor \<Rightarrow> tensor \<Rightarrow> real \<Rightarrow> tensor" where
  "SequenceMask data sequence_length val =
     tabulate (shape data)
       (\<lambda>ix. let n = seq_pos (dat sequence_length ! (ix ! 1))
              in if 0 \<le> n \<and> nat n \<le> ix ! 0 then val else elem data ix)"

text \<open>
  \<open>Dropout\<close> while training: \<open>keep\<close> is the random draw, one decision per element; a kept
  element is scaled by \<open>1 / (1 - p)\<close>.
\<close>

definition Dropout :: "(nat \<Rightarrow> bool) \<Rightarrow> tensor \<Rightarrow> real \<Rightarrow> tensor" where
  "Dropout keep t p =
     \<lparr>shape = shape t,
      dat = map (\<lambda>k. if keep k then dat t ! k / (1 - p) else 0) [0..<length (dat t)]\<rparr>"

subsection \<open>Reshape, transpose and split\<close>

text \<open>
  The target shape of \<open>reshape\<close> is read from left to right against the input shape:
  a positive size, \<open>0\<close> (copy the input dimension) and \<open>-1\<close> (infer) each consume one input
  dimension, \<open>-2\<close> copies all remaining ones, \<open>-3\<close> merges two, and \<open>-4\<close> splits one into
  the two sizes that follow, one of which may be \<open>-1\<close>.
\<close>

fun reshape_dims :: "int list \<Rightarrow> nat list \<Rightarrow> int list option" where
  "reshape_dims [] src = Some []"
| "reshape_dims (s # ss) src =
     (if s = 0 then
        (case src of [] \<Rightarrow> None
         | d # ds \<Rightarrow> map_option ((#) (int d)) (reshape_dims ss ds))
      else if s = - 1 then map_option ((#) (- 1)) (reshape_dims ss (tl src))
      else if s = - 2 then map_option ((@) (map int src)) (reshape_dims ss [])
      else if s = - 3 then
        (case src of
           d1 # d2 # ds \<Rightarrow> map_option ((#) (int (d1 * d2))) (reshape_dims ss ds)
         | _ \<Rightarrow> None)
      else if s = - 4 then
        (case ss of
           a # b # ss' \<Rightarrow>
             (case src of [] \<Rightarrow> None
              | d # ds \<Rightarrow>
                 if a = - 1 \<and> b = - 1 then None
                 else map_option
                        (\<lambda>r. (if a = - 1 then int d div b else a)
                               # (if b = - 1 then int d div a else b) # r)
                        (reshape_dims ss' ds))
         | _ \<Rightarrow> None)
      else if s > 0 then map_option ((#) s) (reshape_dims ss (tl src))
      else None)"

text \<open>The size of the one inferred dimension: what is left of the number of elements.\<close>

definition infer_dims :: "nat \<Rightarrow> int list \<Rightarrow> nat list" where
  "infer_dims n dims =
     (let known = prod_list (map nat (filter (\<lambda>d. d \<noteq> - 1) dims))
      in map (\<lambda>d. if d = - 1 then n div known else nat d) dims)"

definition reshape :: "tensor \<Rightarrow> int list \<Rightarrow> error + tensor" where
  "reshape t spec =
     (case reshape_dims spec (shape t) of
        None \<Rightarrow> Inl MXNetError
      | Some dims \<Rightarrow>
          (let shp = infer_dims (prod_list (shape t)) dims
           in if length (filter (\<lambda>d. d = - 1) dims) \<le> 1 \<and> prod_list shp = prod_list (shape t)
              then Inr (t\<lparr>shape := shp\<rparr>) else Inl MXNetError))"

definition index_of :: "nat list \<Rightarrow> nat \<Rightarrow> nat" where
  "index_of axes a = length (takeWhile (\<lambda>x. x \<noteq> a) axes)"

text \<open>\<open>transpose\<close>: axis \<open>i\<close> of the result is axis \<open>axes ! i\<close> of the input.\<close>

definition transpose_t :: "tensor \<Rightarrow> nat list \<Rightarrow> tensor" where
  "transpose_t t axes =
     tabulate (map (\<lambda>a. shape t ! a) axes)
       (\<lambda>ix. elem t (map (\<lambda>a. ix ! index_of axes a) [0..<length axes]))"

text \<open>\<open>split\<close> (SliceChannel): \<open>num_outputs\<close> equal parts along \<open>axis\<close>.\<close>

definition split_part :: "tensor \<Rightarrow> nat \<Rightarrow> nat \<Rightarrow> nat \<Rightarrow> tensor" where
  "split_part t num_outputs axis j =
     (let sz = shape t ! axis div num_outputs
      in tabulate ((shape t)[axis := sz]) (\<lambda>ix. elem t (ix[axis := ix ! axis + j * sz])))"

definition split :: "tensor \<Rightarrow> nat \<Rightarrow> nat \<Rightarrow> tensor list" where
  "split t num_outputs axis = map (split_part t num_outputs axis) [0..<num_outputs]"

text \<open>A symbol variable denotes the tensor bound to its name.\<close>

type_synonym env = "string \<Rightarrow> tensor"

definition value_of :: "env \<Rightarrow> variable \<Rightarrow> tensor" where
  "value_of E v = E (var_name v)"

section \<open>layers.py: construction\<close>

record LayerNormalization =
  ln_prefix :: "string option"
  ln_scale :: variable
  ln_shift :: variable

definition LayerNormalization_init ::
  "int \<Rightarrow> string option \<Rightarrow> variable option \<Rightarrow> variable option \<Rightarrow> real \<Rightarrow> real
     \<Rightarrow> error + LayerNormalization" where
  "LayerNormalization_init num_hidden prefix scale shift scale_init shift_init =
     (case check_condition (num_hidden > 1)
        ''Layer normalization should only be applied to layers with more than 1 neuron.'' of
        Inl e \<Rightarrow> Inl e
      | Inr _ \<Rightarrow> Inr
          \<lparr>ln_prefix = prefix,
           ln_scale = (case scale of Some s \<Rightarrow> s
              | None \<Rightarrow> Variable (show_opt prefix @ ''_gamma'') (Some [num_hidden])
                         (Some (Constant scale_init))),
           ln_shift = (case shift of Some s \<Rightarrow> s
              | None \<Rightarrow> Variable (show_opt prefix @ ''_beta'') (Some [num_hidden])
                         (Some (Constant shift_init)))\<rparr>)"

record MultiHeadAttention =
  mha_prefix :: string
  mha_depth :: int
  mha_heads :: int
  mha_depth_out :: int
  mha_dropout :: real
  mha_depth_per_head :: int
  mha_w_i2h :: variable
  mha_b_i2h :: variable
  mha_w_h2o :: variable
  mha_b_h2o :: variable

definition MultiHeadAttention_init ::
  "string \<Rightarrow> int \<Rightarrow> int \<Rightarrow> int \<Rightarrow> real \<Rightarrow> error + MultiHeadAttention" where
  "MultiHeadAttention_init prefix depth_att heads depth_out dropout =
     (if heads = 0 then Inl ZeroDivisionError
      else case check_condition (depth_att mod heads = 0)
             (''Number of heads ('' @ show_int heads @ '') must divide attention depth (''
                @ show_int depth_att @ '')'') of
        Inl e \<Rightarrow> Inl e
      | Inr _ \<Rightarrow> Inr
          \<lparr>mha_prefix = prefix, mha_depth = depth_att, mha_heads = heads,
           mha_depth_out = depth_out, mha_dropout = dropout,
           mha_depth_per_head = depth_att div heads,
           mha_w_i2h = Variable (prefix @ ''i2h_weight'') None None,
           mha_b_i2h = Variable (prefix @ ''i2h_bias'') None None,
           mha_w_h2o = Variable (prefix @ ''h2o_weight'') None None,
           mha_b_h2o = Variable (prefix @ ''h2o_bias'') None None\<rparr>)"

record FFNRelu =
  ffn_prefix :: string
  ffn_num_hidden :: int
  ffn_num_model :: int
  ffn_dropout :: real
  ffn_w_i2h :: variable
  ffn_b_i2h :: variable
  ffn_w_h2o :: variable
  ffn_b_h2o :: variable

definition FFNRelu_init :: "string \<Rightarrow> int \<Rightarrow> int \<Rightarrow> real \<Rightarrow> FFNRelu" where
  "FFNRelu_init prefix num_hidden num_model dropout =
     \<lparr>ffn_prefix = prefix, ffn_num_hidden = num_hidden, ffn_num_model = num_model,
      ffn_dropout = dropout,
      ffn_w_i2h = Variable (prefix @ ''i2h_weight'') None None,
      ffn_b_i2h = Variable (prefix @ ''i2h_bias'') None None,
      ffn_w_h2o = Variable (prefix @ ''h2o_weight'') None None,
      ffn_b_h2o = Variable (prefix @ ''h2o_bias'') None None\<rparr>"


section \<open>layers.py: operations\<close>

text \<open>The default of \<open>eps\<close> in \<open>normalize\<close>.\<close>

definition default_eps :: real where
  "default_eps = 1 / 100000"

definition square :: "tensor \<Rightarrow> tensor" where
  "square = map_tensor (\<lambda>v. v * v)"

definition LayerNormalization_moments :: "tensor \<Rightarrow> tensor \<times> tensor" where
  "LayerNormalization_moments inputs =
     (let mean = mean_axis1 inputs;
          var = mean_axis1 (square (broadcast_minus inputs mean))
      in (mean, var))"

definition LayerNormalization_normalize :: "env \<Rightarrow> LayerNormalization \<Rightarrow> tensor \<Rightarrow> real \<Rightarrow> tensor" where
  "LayerNormalization_normalize E self inputs eps =
     (let (mean, var) = LayerNormalization_moments inputs;
          inputs_norm = broadcast_minus inputs mean;
          inputs_norm = broadcast_mul inputs_norm (map_tensor rsqrt (map_tensor (\<lambda>v. v + eps) var));
          inputs_norm = broadcast_mul inputs_norm (value_of E (ln_scale self));
          inputs_norm = broadcast_add inputs_norm (value_of E (ln_shift self))
      in inputs_norm)"

definition split_heads :: "tensor \<Rightarrow> int \<Rightarrow> int \<Rightarrow> error + tensor" where
  "split_heads x len heads =
     bindE (reshape x [0, len, heads, - 1]) (\<lambda>x.
     bindE (Inr (transpose_t x [0, 2, 1, 3])) (\<lambda>x.
     reshape x [- 3, len, - 1]))"

definition combine_heads :: "tensor \<Rightarrow> int \<Rightarrow> int \<Rightarrow> error + tensor" where
  "combine_heads x len heads =
     bindE (reshape x [- 4, - 1, heads, len, 0]) (\<lambda>x.
     bindE (Inr (transpose_t x [0, 2, 1, 3])) (\<lambda>x.
     reshape x [- 1, len, - 3]))"

definition broadcast_lengths :: "tensor \<Rightarrow> int \<Rightarrow> error + tensor" where
  "broadcast_lengths x heads =
     bindE (Inr (expand_dims x 1)) (\<lambda>x.
     bindE (broadcast_to x [0, heads]) (\<lambda>x.
     reshape x [- 3]))"

text \<open>
  Python's \<open>n ** -0.5\<close> for an integer \<open>n\<close>: a division by zero for 0, and a complex number
  for a negative \<open>n\<close>, which is no scalar the runtime multiplies a symbol by.
\<close>

definition pow_minus_half :: "int \<Rightarrow> error + real" where
  "pow_minus_half n =
     (if n = 0 then Inl ZeroDivisionError
      else if n < 0 then Inl MXNetError
      else Inr (1 / sqrt (real_of_int n)))"

text \<open>
  The length masking of \<open>MultiHeadAttention.on\<close>: from the logits of shape
  \<open>(batch * heads, length, length)\<close> to the masked logits of the same shape. The value
  written is the real number that the literal \<open>-99999999.\<close> of the source denotes; a
  runtime computing in single precision stores the nearest number it has, \<open>-100000000\<close>.
\<close>

definition mask_logits :: "tensor \<Rightarrow> tensor \<Rightarrow> int \<Rightarrow> error + tensor" where
  "mask_logits logits inputs_length heads =
     (let logits = transpose_t logits [2, 0, 1]
      in bindE (broadcast_lengths inputs_length heads) (\<lambda>sequence_length.
         let logits = SequenceMask logits sequence_length (- 99999999)
         in Inr (transpose_t logits [1, 2, 0])))"

text \<open>
  \<open>MultiHeadAttention.on\<close>. \<open>keep\<close> is the random draw of the dropout operator, which the
  graph contains only when the dropout rate is positive.
\<close>

definition MultiHeadAttention_on ::
  "env \<Rightarrow> (nat \<Rightarrow> bool) \<Rightarrow> MultiHeadAttention \<Rightarrow> tensor \<Rightarrow> tensor \<Rightarrow> int \<Rightarrow> error + tensor" where
  "MultiHeadAttention_on E keep self inputs inputs_length len =
     bindE (reshape inputs [- 3, - 1]) (\<lambda>inputs.
     let combined = FullyConnected inputs (value_of E (mha_w_i2h self)) (value_of E (mha_b_i2h self))
                      (nat (mha_depth self * 3))
     in bindE (reshape combined [- 1, len, mha_depth self * 3]) (\<lambda>combined.
     let qkv = split combined 3 2;
         q = qkv ! 0; k = qkv ! 1; v = qkv ! 2
     in bindE (pow_minus_half (mha_depth_per_head self)) (\<lambda>c.
     let q = map_tensor (\<lambda>a. a * c) q
     in bindE (split_heads q len (mha_heads self)) (\<lambda>q.
        bindE (split_heads k len (mha_heads self)) (\<lambda>k.
        bindE (split_heads v len (mha_heads self)) (\<lambda>v.
     let logits = batch_dot q k True
     in bindE (mask_logits logits inputs_length (mha_heads self)) (\<lambda>logits.
     let probs = softmax logits;
         probs = (if mha_dropout self > 0 then Dropout keep probs (mha_dropout self) else probs);
         contexts = batch_dot probs v False
     in bindE (combine_heads contexts len (mha_heads self)) (\<lambda>contexts.
     if mha_depth_out self \<noteq> mha_depth self then
       bindE (reshape contexts [- 3, - 1]) (\<lambda>contexts.
       let contexts = FullyConnected contexts (value_of E (mha_w_h2o self)) (value_of E (mha_b_h2o self))
                        (nat (mha_depth_out self))
       in reshape contexts [- 1, len, mha_depth_out self])
     else Inr contexts))))))))"

definition FFNRelu_apply ::
  "env \<Rightarrow> (nat \<Rightarrow> bool) \<Rightarrow> FFNRelu \<Rightarrow> tensor \<Rightarrow> int \<Rightarrow> error + tensor" where
  "FFNRelu_apply E keep self x len =
     bindE (reshape x [- 3, - 1]) (\<lambda>x.
     let h = FullyConnected x (value_of E (ffn_w_i2h self)) (value_of E (ffn_b_i2h self))
               (nat (ffn_num_hidden self));
         h = map_tensor relu h;
         h = (if ffn_dropout self > 0 then Dropout keep h (ffn_dropout self) else h);
         y = FullyConnected h (value_of E (ffn_w_h2o self)) (value_of E (ffn_b_h2o self))
               (nat (ffn_num_model self))
     in reshape y [- 1, len, ffn_num_model self])"

section \<open>rnn.py: configuration and construction of the cells\<close>

record RNNConfig =
  cfg_cell_type :: string
  cfg_num_hidden :: int
  cfg_num_layers :: int
  cfg_dropout :: real
  cfg_residual :: bool
  cfg_forget_bias :: real

text \<open>
  The cell-type identifiers of the \<open>constants\<close> module, which is not among the sources:
  they are a parameter of the stack builder.
\<close>

record constants =
  LSTM_TYPE :: string
  LNLSTM_TYPE :: string
  LNGLSTM_TYPE :: string
  GRU_TYPE :: string
  LNGRU_TYPE :: string
  LNGGRU_TYPE :: string

text \<open>
  The state every cell inherits from \<open>mx.rnn.LSTMCell\<close> or \<open>mx.rnn.GRUCell\<close>: the hidden
  size, the prefix, the parameter container, the four projection variables, and the call
  counter, which the base class starts at \<open>-1\<close>.
\<close>

record base_cell =
  bc_num_hidden :: int
  bc_prefix :: string
  bc_params :: RNNParams
  bc_iW :: variable
  bc_iB :: variable
  bc_hW :: variable
  bc_hB :: variable
  bc_counter :: int

definition LSTMCell_init :: "int \<Rightarrow> string \<Rightarrow> real \<Rightarrow> base_cell" where
  "LSTMCell_init num_hidden prefix forget_bias =
     (let P0 = RNNParams_init prefix;
          (iW, P1) = RNNParams_get P0 ''i2h_weight'' None None;
          (hW, P2) = RNNParams_get P1 ''h2h_weight'' None None;
          (iB, P3) = RNNParams_get P2 ''i2h_bias'' None (Some (LSTMBias forget_bias));
          (hB, P4) = RNNParams_get P3 ''h2h_bias'' None None
      in \<lparr>bc_num_hidden = num_hidden, bc_prefix = prefix, bc_params = P4,
          bc_iW = iW, bc_iB = iB, bc_hW = hW, bc_hB = hB, bc_counter = - 1\<rparr>)"

definition GRUCell_init :: "int \<Rightarrow> string \<Rightarrow> base_cell" where
  "GRUCell_init num_hidden prefix =
     (let P0 = RNNParams_init prefix;
          (iW, P1) = RNNParams_get P0 ''i2h_weight'' None None;
          (iB, P2) = RNNParams_get P1 ''i2h_bias'' None None;
          (hW, P3) = RNNParams_get P2 ''h2h_weight'' None None;
          (hB, P4) = RNNParams_get P3 ''h2h_bias'' None None
      in \<lparr>bc_num_hidden = num_hidden, bc_prefix = prefix, bc_params = P4,
          bc_iW = iW, bc_iB = iB, bc_hW = hW, bc_hB = hB, bc_counter = - 1\<rparr>)"

text \<open>
  One layer normalization over \<open>n\<close> units whose scale and shift are taken from the
  parameter container under the names \<open>scale_name\<close> and \<open>shift_name\<close>, as the across-gates
  cells create each of theirs.
\<close>

definition norm_from_params ::
  "RNNParams \<Rightarrow> int \<Rightarrow> string \<Rightarrow> string \<Rightarrow> string \<Rightarrow> real \<Rightarrow> real
     \<Rightarrow> error + (LayerNormalization \<times> RNNParams)" where
  "norm_from_params P n prefix scale_name shift_name norm_scale norm_shift =
     (let (scale, P1) = RNNParams_get P scale_name (Some [n]) (Some (Constant norm_scale));
          (shift, P2) = RNNParams_get P1 shift_name (Some [n]) (Some (Constant norm_shift))
      in case LayerNormalization_init n (Some prefix) (Some scale) (Some shift) 1 0 of
           Inl e \<Rightarrow> Inl e
         | Inr N \<Rightarrow> Inr (N, P2))"

record LayerNormLSTMCell =
  lnl_base :: base_cell
  lnl_iN :: LayerNormalization
  lnl_hN :: LayerNormalization
  lnl_cN :: LayerNormalization
  lnl_shape_fix :: "tensor option"

definition LayerNormLSTMCell_init ::
  "int \<Rightarrow> string \<Rightarrow> real \<Rightarrow> real \<Rightarrow> real \<Rightarrow> error + LayerNormLSTMCell" where
  "LayerNormLSTMCell_init num_hidden prefix forget_bias norm_scale norm_shift =
     (let b = LSTMCell_init num_hidden prefix forget_bias in
      case norm_from_params (bc_params b) (num_hidden * 4) (prefix @ ''i2h'')
             ''i2h_scale'' ''i2h_shift'' norm_scale norm_shift of
        Inl e \<Rightarrow> Inl e
      | Inr (iN, P1) \<Rightarrow>
      (case norm_from_params P1 (num_hidden * 4) (prefix @ ''h2h'')
              ''h2h_scale'' ''h2h_shift'' norm_scale norm_shift of
        Inl e \<Rightarrow> Inl e
      | Inr (hN, P2) \<Rightarrow>
      (case norm_from_params P2 num_hidden (prefix @ ''c'')
              ''c_scale'' ''c_shift'' norm_scale norm_shift of
        Inl e \<Rightarrow> Inl e
      | Inr (cN, P3) \<Rightarrow>
          Inr \<lparr>lnl_base = b\<lparr>bc_params := P3\<rparr>, lnl_iN = iN, lnl_hN = hN, lnl_cN = cN,
               lnl_shape_fix = None\<rparr>)))"

record LayerNormPerGateLSTMCell =
  lngl_base :: base_cell
  lngl_norm_layers :: "LayerNormalization list"

text \<open>
  The loop over the gate names of the per-gate LSTM cell. The local called \<open>scale\<close> is the
  variable of name \<open><name>_shift\<close>, created with the initial value \<open>norm_shift\<close>; the local
  called \<open>shift\<close> is the variable of name \<open><name>_scale\<close>, created with \<open>norm_scale\<close>, or
  with \<open>forget_bias\<close> for the gate \<open>f\<close>.
\<close>

fun lngl_norm_loop ::
  "string list \<Rightarrow> int \<Rightarrow> string \<Rightarrow> real \<Rightarrow> real \<Rightarrow> real \<Rightarrow> RNNParams \<Rightarrow> LayerNormalization list
     \<Rightarrow> error + (LayerNormalization list \<times> RNNParams)" where
  "lngl_norm_loop [] num_hidden prefix forget_bias norm_scale norm_shift P layers =
     Inr (layers, P)"
| "lngl_norm_loop (name # names) num_hidden prefix forget_bias norm_scale norm_shift P layers =
     (let (scale, P1) = RNNParams_get P (name @ ''_shift'') (Some [num_hidden])
                          (Some (Constant norm_shift));
          (shift, P2) = RNNParams_get P1 (name @ ''_scale'') (Some [num_hidden])
                          (Some (Constant (if name \<noteq> ''f'' then norm_scale else forget_bias)))
      in case LayerNormalization_init num_hidden (Some (prefix @ name)) (Some scale) (Some shift)
                1 0 of
           Inl e \<Rightarrow> Inl e
         | Inr N \<Rightarrow> lngl_norm_loop names num_hidden prefix forget_bias norm_scale norm_shift P2
                      (layers @ [N]))"

definition LayerNormPerGateLSTMCell_init ::
  "int \<Rightarrow> string \<Rightarrow> real \<Rightarrow> real \<Rightarrow> real \<Rightarrow> error + LayerNormPerGateLSTMCell" where
  "LayerNormPerGateLSTMCell_init num_hidden prefix forget_bias norm_scale norm_shift =
     (let b = LSTMCell_init num_hidden prefix forget_bias in
      case lngl_norm_loop [''i'', ''f'', ''c'', ''o'', ''s''] num_hidden prefix forget_bias
             norm_scale norm_shift (bc_params b) [] of
        Inl e \<Rightarrow> Inl e
      | Inr (layers, P) \<Rightarrow> Inr \<lparr>lngl_base = b\<lparr>bc_params := P\<rparr>, lngl_norm_layers = layers\<rparr>)"

record LayerNormGRUCell =
  lng_base :: base_cell
  lng_iN :: LayerNormalization
  lng_hN :: LayerNormalization
  lng_shape_fix :: "tensor option"

definition LayerNormGRUCell_init ::
  "int \<Rightarrow> string \<Rightarrow> real \<Rightarrow> real \<Rightarrow> error + LayerNormGRUCell" where
  "LayerNormGRUCell_init num_hidden prefix norm_scale norm_shift =
     (let b = GRUCell_init num_hidden prefix in
      case norm_from_params (bc_params b) (num_hidden * 3) (prefix @ ''i2h'')
             ''i2h_scale'' ''i2h_shift'' norm_scale norm_shift of
        Inl e \<Rightarrow> Inl e
      | Inr (iN, P1) \<Rightarrow>
      (case norm_from_params P1 (num_hidden * 3) (prefix @ ''h2h'')
              ''h2h_scale'' ''h2h_shift'' norm_scale norm_shift of
        Inl e \<Rightarrow> Inl e
      | Inr (hN, P2) \<Rightarrow>
          Inr \<lparr>lng_base = b\<lparr>bc_params := P2\<rparr>, lng_iN = iN, lng_hN = hN,
               lng_shape_fix = None\<rparr>))"

record LayerNormPerGateGRUCell =
  lngg_base :: base_cell
  lngg_norm_layers :: "LayerNormalization list"

fun lngg_norm_loop ::
  "string list \<Rightarrow> int \<Rightarrow> string \<Rightarrow> real \<Rightarrow> real \<Rightarrow> RNNParams \<Rightarrow> LayerNormalization list
     \<Rightarrow> error + (LayerNormalization list \<times> RNNParams)" where
  "lngg_norm_loop [] num_hidden prefix norm_scale norm_shift P layers = Inr (layers, P)"
| "lngg_norm_loop (name # names) num_hidden prefix norm_scale norm_shift P layers =
     (let (scale, P1) = RNNParams_get P (name @ ''_shift'') (Some [num_hidden])
                          (Some (Constant norm_shift));
          (shift, P2) = RNNParams_get P1 (name @ ''_scale'') (Some [num_hidden])
                          (Some (Constant norm_scale))
      in case LayerNormalization_init num_hidden (Some (prefix @ name)) (Some scale) (Some shift)
                1 0 of
           Inl e \<Rightarrow> Inl e
         | Inr N \<Rightarrow> lngg_norm_loop names num_hidden prefix norm_scale norm_shift P2
                      (layers @ [N]))"

definition LayerNormPerGateGRUCell_init ::
  "int \<Rightarrow> string \<Rightarrow> real \<Rightarrow> real \<Rightarrow> error + LayerNormPerGateGRUCell" where
  "LayerNormPerGateGRUCell_init num_hidden prefix norm_scale norm_shift =
     (let b = GRUCell_init num_hidden prefix in
      case lngg_norm_loop [''r'', ''z'', ''o''] num_hidden prefix norm_scale norm_shift
             (bc_params b) [] of
        Inl e \<Rightarrow> Inl e
      | Inr (layers, P) \<Rightarrow> Inr \<lparr>lngg_base = b\<lparr>bc_params := P\<rparr>, lngg_norm_layers = layers\<rparr>)"

section \<open>rnn.py: the stack builder\<close>

datatype rnn_cell =
    LSTMCell base_cell
  | LNLSTMCell LayerNormLSTMCell
  | LNGLSTMCell LayerNormPerGateLSTMCell
  | GRUCell base_cell
  | LNGRUCell LayerNormGRUCell
  | LNGGRUCell LayerNormPerGateGRUCell
  | ResidualCell rnn_cell
  | DropoutCell real string

text \<open>
  The branch on the cell type of one layer. The normalized cells are built with the default
  \<open>norm_scale = 1.0\<close> and \<open>norm_shift = 0.0\<close> of their constructors.
\<close>

definition make_cell :: "constants \<Rightarrow> RNNConfig \<Rightarrow> string \<Rightarrow> error + rnn_cell" where
  "make_cell C config cell_prefix =
     (if cfg_cell_type config = LSTM_TYPE C then
        Inr (LSTMCell (LSTMCell_init (cfg_num_hidden config) cell_prefix (cfg_forget_bias config)))
      else if cfg_cell_type config = LNLSTM_TYPE C then
        map_sum id LNLSTMCell
          (LayerNormLSTMCell_init (cfg_num_hidden config) cell_prefix (cfg_forget_bias config) 1 0)
      else if cfg_cell_type config = LNGLSTM_TYPE C then
        map_sum id LNGLSTMCell
          (LayerNormPerGateLSTMCell_init (cfg_num_hidden config) cell_prefix
             (cfg_forget_bias config) 1 0)
      else if cfg_cell_type config = GRU_TYPE C then
        Inr (GRUCell (GRUCell_init (cfg_num_hidden config) cell_prefix))
      else if cfg_cell_type config = LNGRU_TYPE C then
        map_sum id LNGRUCell (LayerNormGRUCell_init (cfg_num_hidden config) cell_prefix 1 0)
      else if cfg_cell_type config = LNGGRU_TYPE C then
        map_sum id LNGGRUCell (LayerNormPerGateGRUCell_init (cfg_num_hidden config) cell_prefix 1 0)
      else Inl NotImplementedError)"

text \<open>The loop over \<open>range(config.num_layers)\<close>; \<open>rnn\<close> is the sequential stack built so far.\<close>

fun stack_loop ::
  "constants \<Rightarrow> RNNConfig \<Rightarrow> string \<Rightarrow> nat list \<Rightarrow> rnn_cell list \<Rightarrow> error + rnn_cell list" where
  "stack_loop C config prefix [] rnn = Inr rnn"
| "stack_loop C config prefix (layer # layers) rnn =
     (let cell_prefix = prefix @ ''l'' @ show_nat layer @ ''_'' in
      case make_cell C config cell_prefix of
        Inl e \<Rightarrow> Inl e
      | Inr cell0 \<Rightarrow>
          (let cell = (if cfg_residual config \<and> layer > 0 then ResidualCell cell0 else cell0);
               rnn1 = rnn @ [cell];
               rnn2 = (if cfg_dropout config > 0
                       then rnn1 @ [DropoutCell (cfg_dropout config) (cell_prefix @ ''_dropout'')]
                       else rnn1)
           in stack_loop C config prefix layers rnn2))"

definition get_stacked_rnn :: "constants \<Rightarrow> RNNConfig \<Rightarrow> string \<Rightarrow> error + rnn_cell list" where
  "get_stacked_rnn C config prefix =
     stack_loop C config prefix [0..<nat (cfg_num_layers config)] []"


section \<open>rnn.py: the steps of the cells\<close>

text \<open>
  A call of a cell takes the input and the list of state tensors and returns the output,
  the new states and the cell itself, whose counter and placeholder the call may have
  changed. The names given to the nodes of the graph play no part in the values.
\<close>

definition LayerNormLSTMCell_call ::
  "env \<Rightarrow> LayerNormLSTMCell \<Rightarrow> tensor \<Rightarrow> tensor list
     \<Rightarrow> error + (tensor \<times> tensor list \<times> LayerNormLSTMCell)" where
  "LayerNormLSTMCell_call E self inputs states =
     (let b = (lnl_base self)\<lparr>bc_counter := bc_counter (lnl_base self) + 1\<rparr>;
          i2h = FullyConnected inputs (value_of E (bc_iW b)) (value_of E (bc_iB b))
                  (nat (bc_num_hidden b * 4))
      in bindE (if bc_counter b = 0 then Inr (zeros_like i2h)
                else (case lnl_shape_fix self of
                        None \<Rightarrow> Inl AssertionError
                      | Some z \<Rightarrow> Inr z)) (\<lambda>shape_fix.
         bindE (py_get states 0) (\<lambda>h_prev.
         let h2h = FullyConnected h_prev (value_of E (bc_hW b)) (value_of E (bc_hB b))
                     (nat (bc_num_hidden b * 4));
             gates = elemwise (+) (LayerNormalization_normalize E (lnl_iN self) i2h default_eps)
                       (LayerNormalization_normalize E (lnl_hN self) (elemwise (+) shape_fix h2h) default_eps);
             parts = split gates 4 1;
             in_gate = map_tensor sigmoid (parts ! 0);
             forget_gate = map_tensor sigmoid (parts ! 1);
             in_transform = map_tensor tanh (parts ! 2);
             out_gate = map_tensor sigmoid (parts ! 3)
         in bindE (py_get states 1) (\<lambda>c_prev.
         let next_c = elemwise (+) (elemwise (*) forget_gate c_prev)
                        (elemwise (*) in_gate in_transform);
             next_h = elemwise (*) out_gate
                        (map_tensor tanh (LayerNormalization_normalize E (lnl_cN self) next_c default_eps))
         in Inr (next_h, [next_h, next_c],
                 self\<lparr>lnl_base := b, lnl_shape_fix := Some shape_fix\<rparr>)))))"

definition LayerNormPerGateLSTMCell_call ::
  "env \<Rightarrow> LayerNormPerGateLSTMCell \<Rightarrow> tensor \<Rightarrow> tensor list
     \<Rightarrow> error + (tensor \<times> tensor list \<times> LayerNormPerGateLSTMCell)" where
  "LayerNormPerGateLSTMCell_call E self inputs states =
     (let b = (lngl_base self)\<lparr>bc_counter := bc_counter (lngl_base self) + 1\<rparr>;
          i2h = FullyConnected inputs (value_of E (bc_iW b)) (value_of E (bc_iB b))
                  (nat (bc_num_hidden b * 4))
      in bindE (py_get states 0) (\<lambda>h_prev.
         let h2h = FullyConnected h_prev (value_of E (bc_hW b)) (value_of E (bc_hB b))
                     (nat (bc_num_hidden b * 4));
             gates = elemwise (+) i2h h2h;
             parts = split gates 4 1
         in bindE (py_get (lngl_norm_layers self) 0) (\<lambda>n0.
            bindE (py_get (lngl_norm_layers self) 1) (\<lambda>n1.
            bindE (py_get (lngl_norm_layers self) 2) (\<lambda>n2.
            bindE (py_get (lngl_norm_layers self) 3) (\<lambda>n3.
         let in_gate = map_tensor sigmoid (LayerNormalization_normalize E n0 (parts ! 0) default_eps);
             forget_gate = map_tensor sigmoid (LayerNormalization_normalize E n1 (parts ! 1) default_eps);
             in_transform = map_tensor tanh (LayerNormalization_normalize E n2 (parts ! 2) default_eps);
             out_gate = map_tensor sigmoid (LayerNormalization_normalize E n3 (parts ! 3) default_eps)
         in bindE (py_get states 1) (\<lambda>c_prev.
         let next_c = elemwise (+) (elemwise (*) forget_gate c_prev)
                        (elemwise (*) in_gate in_transform)
         in bindE (py_get (lngl_norm_layers self) 4) (\<lambda>n4.
         let next_h = elemwise (*) out_gate
                        (map_tensor tanh (LayerNormalization_normalize E n4 next_c default_eps))
         in Inr (next_h, [next_h, next_c], self\<lparr>lngl_base := b\<rparr>)))))))))"

definition LayerNormGRUCell_call ::
  "env \<Rightarrow> LayerNormGRUCell \<Rightarrow> tensor \<Rightarrow> tensor list
     \<Rightarrow> error + (tensor \<times> tensor list \<times> LayerNormGRUCell)" where
  "LayerNormGRUCell_call E self inputs states =
     (let b = (lng_base self)\<lparr>bc_counter := bc_counter (lng_base self) + 1\<rparr>
      in bindE (py_get states 0) (\<lambda>prev_state_h.
         let i2h = FullyConnected inputs (value_of E (bc_iW b)) (value_of E (bc_iB b))
                     (nat (bc_num_hidden b * 3));
             h2h = FullyConnected prev_state_h (value_of E (bc_hW b)) (value_of E (bc_hB b))
                     (nat (bc_num_hidden b * 3))
         in bindE (if bc_counter b = 0 then Inr (zeros_like i2h)
                   else (case lng_shape_fix self of
                           None \<Rightarrow> Inl AssertionError
                         | Some z \<Rightarrow> Inr z)) (\<lambda>shape_fix.
         let i2h = LayerNormalization_normalize E (lng_iN self) i2h default_eps;
             h2h = LayerNormalization_normalize E (lng_hN self) (elemwise (+) shape_fix h2h) default_eps;
             i_parts = split i2h 3 1;
             h_parts = split h2h 3 1;
             reset_gate = map_tensor sigmoid (elemwise (+) (i_parts ! 0) (h_parts ! 0));
             update_gate = map_tensor sigmoid (elemwise (+) (i_parts ! 1) (h_parts ! 1));
             next_h_tmp = map_tensor tanh
                            (elemwise (+) (i_parts ! 2) (elemwise (*) reset_gate (h_parts ! 2)));
             next_h = elemwise (+) (elemwise (*) (map_tensor (\<lambda>v. 1 - v) update_gate) next_h_tmp)
                        (elemwise (*) update_gate prev_state_h)
         in Inr (next_h, [next_h], self\<lparr>lng_base := b, lng_shape_fix := Some shape_fix\<rparr>))))"

definition LayerNormPerGateGRUCell_call ::
  "env \<Rightarrow> LayerNormPerGateGRUCell \<Rightarrow> tensor \<Rightarrow> tensor list
     \<Rightarrow> error + (tensor \<times> tensor list \<times> LayerNormPerGateGRUCell)" where
  "LayerNormPerGateGRUCell_call E self inputs states =
     (let b = (lngg_base self)\<lparr>bc_counter := bc_counter (lngg_base self) + 1\<rparr>
      in bindE (py_get states 0) (\<lambda>prev_state_h.
         let i2h = FullyConnected inputs (value_of E (bc_iW b)) (value_of E (bc_iB b))
                     (nat (bc_num_hidden b * 3));
             h2h = FullyConnected prev_state_h (value_of E (bc_hW b)) (value_of E (bc_hB b))
                     (nat (bc_num_hidden b * 3));
             i_parts = split i2h 3 1;
             h_parts = split h2h 3 1
         in bindE (py_get (lngg_norm_layers self) 0) (\<lambda>n0.
         let reset_gate = map_tensor sigmoid
                            (LayerNormalization_normalize E n0 (elemwise (+) (i_parts ! 0) (h_parts ! 0)) default_eps)
         in bindE (py_get (lngg_norm_layers self) 1) (\<lambda>n1.
         let update_gate = map_tensor sigmoid
                            (LayerNormalization_normalize E n1 (elemwise (+) (i_parts ! 1) (h_parts ! 1)) default_eps)
         in bindE (py_get (lngg_norm_layers self) 2) (\<lambda>n2.
         let next_h_tmp = map_tensor tanh
                            (LayerNormalization_normalize E n2
                               (elemwise (+) (i_parts ! 2) (elemwise (*) reset_gate (h_parts ! 2)))
                               default_eps);
             next_h = elemwise (+) (elemwise (*) (map_tensor (\<lambda>v. 1 - v) update_gate) next_h_tmp)
                        (elemwise (*) update_gate prev_state_h)
         in Inr (next_h, [next_h], self\<lparr>lngg_base := b\<rparr>))))))"

section \<open>The operations as the specification words them\<close>

text \<open>Predicates on results, used to state which kind of outcome a construction has.\<close>

definition is_configuration_error :: "error + 'a \<Rightarrow> bool" where
  "is_configuration_error r = (case r of Inl (ConfigurationError _) \<Rightarrow> True | _ \<Rightarrow> False)"

definition succeeds :: "error + 'a \<Rightarrow> bool" where
  "succeeds r = (case r of Inl _ \<Rightarrow> False | Inr _ \<Rightarrow> True)"

definition recognized :: "constants \<Rightarrow> string \<Rightarrow> bool" where
  "recognized C t =
     (t = LSTM_TYPE C \<or> t = LNLSTM_TYPE C \<or> t = LNGLSTM_TYPE C \<or> t = GRU_TYPE C
        \<or> t = LNGRU_TYPE C \<or> t = LNGGRU_TYPE C)"

text \<open>
  The mean of row \<open>b\<close> of a matrix, the mean of the squared deviations of the row from it,
  and the normalization as the specification gives it, element by element.
\<close>

definition row_mean :: "tensor \<Rightarrow> nat \<Rightarrow> real" where
  "row_mean x b = (\<Sum>j\<leftarrow>[0..<shape x ! 1]. elem x [b, j]) / real (shape x ! 1)"

definition row_var :: "tensor \<Rightarrow> nat \<Rightarrow> real" where
  "row_var x b =
     (\<Sum>j\<leftarrow>[0..<shape x ! 1]. (elem x [b, j] - row_mean x b)\<^sup>2) / real (shape x ! 1)"

definition spec_normalize :: "tensor \<Rightarrow> tensor \<Rightarrow> tensor \<Rightarrow> real \<Rightarrow> tensor" where
  "spec_normalize scale shift x eps =
     tabulate (shape x)
       (\<lambda>ix. elem scale [ix ! 1] * (elem x ix - row_mean x (ix ! 0))
                / sqrt (row_var x (ix ! 0) + eps) + elem shift [ix ! 1])"

text \<open>
  The length mask as the specification gives it: row \<open>n\<close> of the logits belongs to the
  sequence \<open>n div heads\<close>, and a key position at or beyond the valid length of that
  sequence holds the sentinel, whatever the query position.
\<close>

definition spec_mask_logits :: "tensor \<Rightarrow> tensor \<Rightarrow> nat \<Rightarrow> tensor" where
  "spec_mask_logits logits valid_length heads =
     tabulate (shape logits)
       (\<lambda>ix. if nat \<lfloor>elem valid_length [ix ! 0 div heads]\<rfloor> \<le> ix ! 2 then - 99999999
              else elem logits ix)"

text \<open>
  The attention as the specification gives it, for inputs of shape \<open>[B, L, Din]\<close>, \<open>h\<close>
  heads and \<open>p\<close> units per head. Steps 1 to 3: one projection to three times the attention
  depth, split into query, key and value, the query scaled by the units per head to the
  power of \<open>-0.5\<close>, and each of the three split into heads.
\<close>

definition spec_split_heads :: "tensor \<Rightarrow> nat \<Rightarrow> nat \<Rightarrow> nat \<Rightarrow> nat \<Rightarrow> tensor" where
  "spec_split_heads x B L h p =
     (transpose_t (x\<lparr>shape := [B, L, h, p]\<rparr>) [0, 2, 1, 3])\<lparr>shape := [B * h, L, p]\<rparr>"

definition spec_combine_heads :: "tensor \<Rightarrow> nat \<Rightarrow> nat \<Rightarrow> nat \<Rightarrow> nat \<Rightarrow> tensor" where
  "spec_combine_heads y B L h p =
     (transpose_t (y\<lparr>shape := [B, h, L, p]\<rparr>) [0, 2, 1, 3])\<lparr>shape := [B, L, h * p]\<rparr>"

definition spec_attend_qkv ::
  "env \<Rightarrow> MultiHeadAttention \<Rightarrow> tensor \<Rightarrow> nat \<Rightarrow> nat \<Rightarrow> nat \<Rightarrow> nat \<Rightarrow> nat
     \<Rightarrow> tensor \<times> tensor \<times> tensor" where
  "spec_attend_qkv E self inputs B L Din h p =
     (let flat = inputs\<lparr>shape := [B * L, Din]\<rparr>;
          combined = (FullyConnected flat (value_of E (mha_w_i2h self))
                        (value_of E (mha_b_i2h self)) (3 * (h * p)))
                       \<lparr>shape := [B, L, 3 * (h * p)]\<rparr>;
          query = map_tensor (\<lambda>a. a * (1 / sqrt (real p))) (split_part combined 3 2 0);
          key = split_part combined 3 2 1;
          val = split_part combined 3 2 2
      in (spec_split_heads query B L h p, spec_split_heads key B L h p,
          spec_split_heads val B L h p))"

text \<open>
  Steps 6 to 9, from the masked scores: softmax over the key axis, dropout when the rate
  is positive, the product with the values, the heads combined, and the second projection
  when the output depth differs from the attention depth.
\<close>

definition spec_attend_rest ::
  "env \<Rightarrow> (nat \<Rightarrow> bool) \<Rightarrow> MultiHeadAttention \<Rightarrow> tensor \<Rightarrow> tensor \<Rightarrow> nat \<Rightarrow> nat \<Rightarrow> nat \<Rightarrow> nat
     \<Rightarrow> tensor" where
  "spec_attend_rest E keep self masked v B L h p =
     (let probs = softmax masked;
          probs = (if mha_dropout self > 0 then Dropout keep probs (mha_dropout self) else probs);
          contexts = spec_combine_heads (batch_dot probs v False) B L h p
      in if mha_depth_out self \<noteq> mha_depth self
         then (FullyConnected (contexts\<lparr>shape := [B * L, h * p]\<rparr>)
                 (value_of E (mha_w_h2o self)) (value_of E (mha_b_h2o self))
                 (nat (mha_depth_out self)))
                \<lparr>shape := [B, L, nat (mha_depth_out self)]\<rparr>
         else contexts)"

text \<open>
  Steps 4 and 5 between them: the scores are the products of queries and keys, and what
  the softmax is applied to are the scores under the length mask.
\<close>

definition spec_attend ::
  "env \<Rightarrow> (nat \<Rightarrow> bool) \<Rightarrow> MultiHeadAttention \<Rightarrow> tensor \<Rightarrow> tensor
     \<Rightarrow> nat \<Rightarrow> nat \<Rightarrow> nat \<Rightarrow> nat \<Rightarrow> nat \<Rightarrow> tensor" where
  "spec_attend E keep self inputs valid_length B L Din h p =
     (case spec_attend_qkv E self inputs B L Din h p of
        (q, k, v) \<Rightarrow>
          spec_attend_rest E keep self
            (spec_mask_logits (batch_dot q k True) valid_length h) v B L h p)"

text \<open>
  The step of the across-gates LSTM as the specification gives it: two normalized
  projections are summed, the sum is split into the chunks of the input gate, the forget
  gate, the candidate and the output gate, and a third normalization is applied to the new
  cell memory. The result is the pair of the new hidden state and the new cell memory.
\<close>

definition spec_lstm_step ::
  "env \<Rightarrow> LayerNormLSTMCell \<Rightarrow> tensor \<Rightarrow> tensor \<Rightarrow> tensor \<Rightarrow> tensor \<times> tensor" where
  "spec_lstm_step E cell x h_prev c_prev =
     (let b = lnl_base cell;
          n = nat (bc_num_hidden b * 4);
          Linear_i = FullyConnected x (value_of E (bc_iW b)) (value_of E (bc_iB b)) n;
          Linear_h = FullyConnected h_prev (value_of E (bc_hW b)) (value_of E (bc_hB b)) n;
          gatesRaw = elemwise (+)
            (LayerNormalization_normalize E (lnl_iN cell) Linear_i default_eps)
            (LayerNormalization_normalize E (lnl_hN cell) Linear_h default_eps);
          inGate = map_tensor sigmoid (split_part gatesRaw 4 1 0);
          forgetGate = map_tensor sigmoid (split_part gatesRaw 4 1 1);
          candidate = map_tensor tanh (split_part gatesRaw 4 1 2);
          outGate = map_tensor sigmoid (split_part gatesRaw 4 1 3);
          c = elemwise (+) (elemwise (*) forgetGate c_prev) (elemwise (*) inGate candidate);
          h = elemwise (*) outGate
                (map_tensor tanh (LayerNormalization_normalize E (lnl_cN cell) c default_eps))
      in (h, c))"

text \<open>The step of the across-gates GRU as the specification gives it.\<close>

definition spec_gru_step :: "env \<Rightarrow> LayerNormGRUCell \<Rightarrow> tensor \<Rightarrow> tensor \<Rightarrow> tensor" where
  "spec_gru_step E cell x h_prev =
     (let b = lng_base cell;
          n = nat (bc_num_hidden b * 3);
          Linear_i = FullyConnected x (value_of E (bc_iW b)) (value_of E (bc_iB b)) n;
          Linear_h = FullyConnected h_prev (value_of E (bc_hW b)) (value_of E (bc_hB b)) n;
          i2h = LayerNormalization_normalize E (lng_iN cell) Linear_i default_eps;
          h2h = LayerNormalization_normalize E (lng_hN cell) Linear_h default_eps;
          resetGate = map_tensor sigmoid
                        (elemwise (+) (split_part i2h 3 1 0) (split_part h2h 3 1 0));
          updateGate = map_tensor sigmoid
                         (elemwise (+) (split_part i2h 3 1 1) (split_part h2h 3 1 1));
          candidate = map_tensor tanh
                        (elemwise (+) (split_part i2h 3 1 2)
                           (elemwise (*) resetGate (split_part h2h 3 1 2)))
      in elemwise (+) (elemwise (*) (map_tensor (\<lambda>v. 1 - v) updateGate) candidate)
           (elemwise (*) updateGate h_prev))"

text \<open>
  The states in which an across-gates cell can be called on a batch of \<open>B\<close> rows: before
  its first call, when the counter is \<open>-1\<close>, or later, when the placeholder is the tensor
  of zeros that the first call made from its input projection of a batch of \<open>B\<close> rows.
\<close>

definition zeros :: "nat list \<Rightarrow> tensor" where
  "zeros shp = \<lparr>shape = shp, dat = replicate (prod_list shp) 0\<rparr>"

definition lstm_later :: "LayerNormLSTMCell \<Rightarrow> nat \<Rightarrow> bool" where
  "lstm_later cell B =
     (0 \<le> bc_counter (lnl_base cell)
      \<and> lnl_shape_fix cell = Some (zeros [B, nat (bc_num_hidden (lnl_base cell) * 4)]))"

definition lstm_ready :: "LayerNormLSTMCell \<Rightarrow> nat \<Rightarrow> bool" where
  "lstm_ready cell B = (bc_counter (lnl_base cell) = - 1 \<or> lstm_later cell B)"

definition gru_later :: "LayerNormGRUCell \<Rightarrow> nat \<Rightarrow> bool" where
  "gru_later cell B =
     (0 \<le> bc_counter (lng_base cell)
      \<and> lng_shape_fix cell = Some (zeros [B, nat (bc_num_hidden (lng_base cell) * 3)]))"

definition gru_ready :: "LayerNormGRUCell \<Rightarrow> nat \<Rightarrow> bool" where
  "gru_ready cell B = (bc_counter (lng_base cell) = - 1 \<or> gru_later cell B)"

text \<open>What a call returns to its caller: the output and the new states, without the cell.\<close>

definition outputs ::
  "error + (tensor \<times> tensor list \<times> 'c) \<Rightarrow> error + (tensor \<times> tensor list)" where
  "outputs r = (case r of Inl e \<Rightarrow> Inl e | Inr (out, states, cell) \<Rightarrow> Inr (out, states))"

text \<open>
  A second run of a cell with the same weights, input and states, on the cell as the
  first run left it: what the second run returns to its caller.
\<close>

definition second_call ::
  "(env \<Rightarrow> 'c \<Rightarrow> tensor \<Rightarrow> tensor list \<Rightarrow> error + (tensor \<times> tensor list \<times> 'c))
     \<Rightarrow> env \<Rightarrow> 'c \<Rightarrow> tensor \<Rightarrow> tensor list \<Rightarrow> error + (tensor \<times> tensor list)" where
  "second_call call E cell x states =
     bindE (call E cell x states) (\<lambda>(out, st, cell'). outputs (call E cell' x states))"

text \<open>Whether a cell of a stack is, or wraps, a dropout cell.\<close>

fun has_dropout :: "rnn_cell \<Rightarrow> bool" where
  "has_dropout (DropoutCell p prefix) = True"
| "has_dropout (ResidualCell c) = has_dropout c"
| "has_dropout _ = False"

section \<open>Concrete objects for the examples\<close>

definition example_constants :: constants where
  "example_constants =
     \<lparr>LSTM_TYPE = ''lstm'', LNLSTM_TYPE = ''lnlstm'', LNGLSTM_TYPE = ''lnglstm'',
      GRU_TYPE = ''gru'', LNGRU_TYPE = ''lngru'', LNGGRU_TYPE = ''lnggru''\<rparr>"

definition example_config :: "string \<Rightarrow> int \<Rightarrow> RNNConfig" where
  "example_config t n =
     \<lparr>cfg_cell_type = t, cfg_num_hidden = 3, cfg_num_layers = n, cfg_dropout = 0,
      cfg_residual = False, cfg_forget_bias = 0\<rparr>"

definition example_env :: env where
  "example_env = (\<lambda>name. \<lparr>shape = [2], dat = [2, 5]\<rparr>)"

definition example_norm :: LayerNormalization where
  "example_norm =
     \<lparr>ln_prefix = Some ''n'', ln_scale = Variable ''n_gamma'' (Some [2]) (Some (Constant 1)),
      ln_shift = Variable ''n_beta'' (Some [2]) (Some (Constant 0))\<rparr>"

definition example_x :: tensor where
  "example_x = \<lparr>shape = [1, 2], dat = [1, 3]\<rparr>"

definition example_lstm :: LayerNormLSTMCell where
  "example_lstm =
     \<lparr>lnl_base = LSTMCell_init 1 ''lnlstm_'' 1, lnl_iN = example_norm, lnl_hN = example_norm,
      lnl_cN = example_norm, lnl_shape_fix = None\<rparr>"

definition example_gru :: LayerNormGRUCell where
  "example_gru =
     \<lparr>lng_base = GRUCell_init 1 ''lngru_'', lng_iN = example_norm, lng_hN = example_norm,
      lng_shape_fix = None\<rparr>"

definition example_attention :: MultiHeadAttention where
  "example_attention =
     \<lparr>mha_prefix = ''att_'', mha_depth = 4, mha_heads = 2, mha_depth_out = 4, mha_dropout = 0,
      mha_depth_per_head = 2,
      mha_w_i2h = Variable ''att_i2h_weight'' None None,
      mha_b_i2h = Variable ''att_i2h_bias'' None None,
      mha_w_h2o = Variable ''att_h2o_weight'' None None,
      mha_b_h2o = Variable ''att_h2o_bias'' None None\<rparr>"

text \<open>
  An attention with 2 heads of 2 units on inputs of depth 1: the weight of the projection
  has shape \<open>[12, 1]\<close>, its bias shape \<open>[12]\<close>; the input is one sequence of length 2.
\<close>

definition example_att_env :: env where
  "example_att_env =
     (\<lambda>name. if name = ''att_i2h_weight'' then \<lparr>shape = [12, 1], dat = replicate 12 1\<rparr>
             else \<lparr>shape = [12], dat = replicate 12 0\<rparr>)"

definition example_inputs :: tensor where
  "example_inputs = \<lparr>shape = [1, 2, 1], dat = [1, 3]\<rparr>"

section \<open>Properties of the construction\<close>

lemma make_cell_unknown:
  "\<not> recognized C (cfg_cell_type config) \<Longrightarrow> make_cell C config p = Inl NotImplementedError"
  by (simp add: make_cell_def recognized_def)

lemma stack_no_layers:
  "cfg_num_layers config \<le> 0 \<Longrightarrow> get_stacked_rnn C config prefix = Inr []"
  by (simp add: get_stacked_rnn_def)

lemma stack_unknown:
  assumes "\<not> recognized C (cfg_cell_type config)" and "1 \<le> cfg_num_layers config"
  shows "get_stacked_rnn C config prefix = Inl NotImplementedError"
proof -
  have "0 < nat (cfg_num_layers config)"
    using assms(2) by simp
  then have "[0..<nat (cfg_num_layers config)] = 0 # [1..<nat (cfg_num_layers config)]"
    by (simp add: upt_conv_Cons)
  then show ?thesis
    by (simp add: get_stacked_rnn_def make_cell_unknown[OF assms(1)])
qed

lemma example_unrecognized: "\<not> recognized example_constants ''transformer''"
  by (simp add: recognized_def example_constants_def)

text \<open>
  C10. With layer count 0 the stack builder returns the empty stack and raises nothing,
  whatever the cell-type identifier is, recognized or not; hence a run of the builder that
  ends in the unknown-cell-type failure has instantiated at least one layer.
\<close>

theorem get_stacked_rnn_zero_layers:
  "(cfg_num_layers config = 0 \<longrightarrow> get_stacked_rnn C config prefix = Inr [])
   \<and> (get_stacked_rnn C config prefix = Inl NotImplementedError \<longrightarrow> 1 \<le> cfg_num_layers config)"
proof (intro conjI impI)
  assume "cfg_num_layers config = 0"
  then show "get_stacked_rnn C config prefix = Inr []"
    by (simp add: stack_no_layers)
next
  assume fails: "get_stacked_rnn C config prefix = Inl NotImplementedError"
  show "1 \<le> cfg_num_layers config"
  proof (rule ccontr)
    assume "\<not> 1 \<le> cfg_num_layers config"
    then have "cfg_num_layers config \<le> 0" by simp
    then have "get_stacked_rnn C config prefix = Inr []" by (rule stack_no_layers)
    with fails show False by simp
  qed
qed

theorem get_stacked_rnn_zero_layers_witness:
  "\<not> recognized example_constants ''transformer''
   \<and> cfg_num_layers (example_config ''transformer'' 0) = 0
   \<and> get_stacked_rnn example_constants (example_config ''transformer'' 0) ''rnn_'' = Inr []
   \<and> get_stacked_rnn example_constants (example_config ''transformer'' 1) ''rnn_''
       = Inl NotImplementedError
   \<and> 1 \<le> cfg_num_layers (example_config ''transformer'' 1)"
proof -
  have zero: "cfg_num_layers (example_config ''transformer'' 0) = 0"
    by (simp add: example_config_def)
  have one: "get_stacked_rnn example_constants (example_config ''transformer'' 1) ''rnn_''
       = Inl NotImplementedError"
    by (rule stack_unknown) (simp_all add: example_unrecognized example_config_def)
  from get_stacked_rnn_zero_layers
         [of "example_config ''transformer'' 0" example_constants "''rnn_''"]
       get_stacked_rnn_zero_layers
         [of "example_config ''transformer'' 1" example_constants "''rnn_''"]
       zero one example_unrecognized
  show ?thesis by simp
qed


lemma LayerNormalization_init_small:
  "num_hidden \<le> 1 \<Longrightarrow>
   LayerNormalization_init num_hidden p sc sh a b =
     Inl (ConfigurationError
       ''Layer normalization should only be applied to layers with more than 1 neuron.'')"
  by (simp add: LayerNormalization_init_def check_condition_def)

lemma LayerNormalization_init_large:
  "1 < num_hidden \<Longrightarrow> succeeds (LayerNormalization_init num_hidden p sc sh a b)"
  by (simp add: LayerNormalization_init_def check_condition_def succeeds_def)

lemma MultiHeadAttention_init_indivisible:
  "heads \<noteq> 0 \<Longrightarrow> depth_att mod heads \<noteq> 0 \<Longrightarrow>
   MultiHeadAttention_init prefix depth_att heads depth_out dropout =
     Inl (ConfigurationError
       (''Number of heads ('' @ show_int heads @ '') must divide attention depth (''
          @ show_int depth_att @ '')''))"
  by (simp add: MultiHeadAttention_init_def check_condition_def)

lemma MultiHeadAttention_init_divisible:
  "heads \<noteq> 0 \<Longrightarrow> depth_att mod heads = 0 \<Longrightarrow>
   succeeds (MultiHeadAttention_init prefix depth_att heads depth_out dropout)"
  by (simp add: MultiHeadAttention_init_def check_condition_def succeeds_def)

text \<open>
  C4, as stated, fails: an unrecognized cell type makes the stack builder raise
  \<open>NotImplementedError\<close>, which is not the configuration error of \<open>check_condition\<close>.
\<close>

theorem unknown_cell_type_counterexample:
  "get_stacked_rnn example_constants (example_config ''transformer'' 1) ''rnn_''
     = Inl NotImplementedError
   \<and> \<not> is_configuration_error
         (get_stacked_rnn example_constants (example_config ''transformer'' 1) ''rnn_'')"
proof -
  have "get_stacked_rnn example_constants (example_config ''transformer'' 1) ''rnn_''
     = Inl NotImplementedError"
    by (rule stack_unknown) (simp_all add: example_unrecognized example_config_def)
  then show ?thesis
    by (simp add: is_configuration_error_def)
qed

text \<open>
  C4, amended. A normalized dimension of at most 1 and an attention depth that a nonzero
  head count does not divide raise the configuration error when the object is constructed,
  the latter with a message holding the head count and the depth. An unrecognized cell type
  makes the stack builder raise \<open>NotImplementedError\<close>, a different kind of error, when the
  configuration has at least one layer. A normalized dimension of 2, and an attention depth
  of 512 with 8 heads, are accepted. None of these functions takes a tensor: they run before
  any forward computation.
\<close>

theorem static_misconfiguration:
  "(num_hidden \<le> 1 \<longrightarrow>
      is_configuration_error (LayerNormalization_init num_hidden p sc sh a b))
   \<and> (heads \<noteq> 0 \<and> depth_att mod heads \<noteq> 0 \<longrightarrow>
        MultiHeadAttention_init prefix depth_att heads depth_out dropout =
          Inl (ConfigurationError
            (''Number of heads ('' @ show_int heads @ '') must divide attention depth (''
               @ show_int depth_att @ '')'')))
   \<and> (\<not> recognized C (cfg_cell_type config) \<and> 1 \<le> cfg_num_layers config \<longrightarrow>
        get_stacked_rnn C config rnn_prefix = Inl NotImplementedError)
   \<and> succeeds (LayerNormalization_init 2 p sc sh a b)
   \<and> succeeds (MultiHeadAttention_init prefix 512 8 depth_out dropout)"
proof (intro conjI impI)
  assume "num_hidden \<le> 1"
  then show "is_configuration_error (LayerNormalization_init num_hidden p sc sh a b)"
    by (simp add: LayerNormalization_init_small is_configuration_error_def)
next
  assume "heads \<noteq> 0 \<and> depth_att mod heads \<noteq> 0"
  then show "MultiHeadAttention_init prefix depth_att heads depth_out dropout =
          Inl (ConfigurationError
            (''Number of heads ('' @ show_int heads @ '') must divide attention depth (''
               @ show_int depth_att @ '')''))"
    by (simp add: MultiHeadAttention_init_indivisible)
next
  assume "\<not> recognized C (cfg_cell_type config) \<and> 1 \<le> cfg_num_layers config"
  then show "get_stacked_rnn C config rnn_prefix = Inl NotImplementedError"
    by (simp add: stack_unknown)
next
  show "succeeds (LayerNormalization_init 2 p sc sh a b)"
    by (rule LayerNormalization_init_large) simp
next
  show "succeeds (MultiHeadAttention_init prefix 512 8 depth_out dropout)"
    by (rule MultiHeadAttention_init_divisible) simp_all
qed

theorem static_misconfiguration_witness:
  "(1::int) \<le> 1
   \<and> is_configuration_error (LayerNormalization_init 1 None None None 1 0)
   \<and> (7::int) \<noteq> 0 \<and> (512::int) mod 7 \<noteq> 0
   \<and> MultiHeadAttention_init ''att_'' 512 7 512 0 =
        Inl (ConfigurationError ''Number of heads (7) must divide attention depth (512)'')
   \<and> \<not> recognized example_constants (cfg_cell_type (example_config ''transformer'' 1))
   \<and> 1 \<le> cfg_num_layers (example_config ''transformer'' 1)
   \<and> get_stacked_rnn example_constants (example_config ''transformer'' 1) ''rnn_''
        = Inl NotImplementedError
   \<and> succeeds (LayerNormalization_init 2 None None None 1 0)
   \<and> succeeds (MultiHeadAttention_init ''att_'' 512 8 512 0)"
proof -
  have h7: "show_int 7 = ''7''" and h512: "show_int 512 = ''512''"
    by code_simp+
  have unk: "\<not> recognized example_constants (cfg_cell_type (example_config ''transformer'' 1))"
    by (simp add: example_unrecognized example_config_def)
  have lay: "1 \<le> cfg_num_layers (example_config ''transformer'' 1)"
    by (simp add: example_config_def)
  from static_misconfiguration
         [of 1 None None None 1 0 7 512 "''att_''" 512 0 example_constants
             "example_config ''transformer'' 1" "''rnn_''"]
       unk lay
  show ?thesis by (simp add: h7 h512)
qed

text \<open>
  C3. Constructed with \<open>forget_bias = 1.0\<close>, \<open>norm_scale = 1.0\<close> and \<open>norm_shift = 0.0\<close>, the
  per-gate LSTM cell has five normalization units whose shift parameters are all created
  with the initial value 1.0, under the names \<open>..._scale\<close>, and whose scale parameters are
  all created with the initial value 0.0, under the names \<open>..._shift\<close>: the shift of the
  gates \<open>i\<close>, \<open>c\<close> and \<open>o\<close> is not initialized to 0.0, and no scale is initialized to 1.0.
\<close>

theorem per_gate_lstm_init_swapped:
  "(case LayerNormPerGateLSTMCell_init 3 ''lnglstm_'' 1 1 0 of
      Inl e \<Rightarrow> False
    | Inr c \<Rightarrow>
        map (\<lambda>N. var_init (ln_shift N)) (lngl_norm_layers c) =
          [Some (Constant 1), Some (Constant 1), Some (Constant 1), Some (Constant 1),
           Some (Constant 1)]
        \<and> map (\<lambda>N. var_init (ln_scale N)) (lngl_norm_layers c) =
          [Some (Constant 0), Some (Constant 0), Some (Constant 0), Some (Constant 0),
           Some (Constant 0)]
        \<and> map (\<lambda>N. var_name (ln_shift N)) (lngl_norm_layers c) =
          [''lnglstm_i_scale'', ''lnglstm_f_scale'', ''lnglstm_c_scale'', ''lnglstm_o_scale'',
           ''lnglstm_s_scale'']
        \<and> map (\<lambda>N. var_name (ln_scale N)) (lngl_norm_layers c) =
          [''lnglstm_i_shift'', ''lnglstm_f_shift'', ''lnglstm_c_shift'', ''lnglstm_o_shift'',
           ''lnglstm_s_shift''])"
  by (simp add: LayerNormPerGateLSTMCell_init_def LSTMCell_init_def RNNParams_init_def
        RNNParams_get_def Let_def LayerNormalization_init_def check_condition_def Variable_def)

section \<open>Properties of the tensor runtime\<close>

lemma valid_index_Nil [simp]: "valid_index [] ix \<longleftrightarrow> ix = []"
  by (simp add: valid_index_def)

lemma valid_index_Cons:
  "valid_index (d # ds) ix \<longleftrightarrow> (\<exists>i is. ix = i # is \<and> i < d \<and> valid_index ds is)"
  by (auto simp add: valid_index_def list_all2_Cons2)

lemma valid_index_Cons_Cons [simp]:
  "valid_index (d # ds) (i # ix) \<longleftrightarrow> i < d \<and> valid_index ds ix"
  by (simp add: valid_index_def)

lemma valid_index_length: "valid_index shp ix \<Longrightarrow> length ix = length shp"
  by (simp add: valid_index_def list_all2_lengthD)

lemma ravel_less: "valid_index shp ix \<Longrightarrow> ravel shp ix < prod_list shp"
proof (induction shp arbitrary: ix)
  case Nil
  then show ?case by simp
next
  case (Cons d ds)
  then obtain i "is" where ix: "ix = i # is" and i: "i < d" and v: "valid_index ds is"
    by (auto simp add: valid_index_Cons)
  have r: "ravel ds is < prod_list ds" using Cons.IH[OF v] .
  have "i * prod_list ds + ravel ds is < i * prod_list ds + prod_list ds"
    using r by simp
  also have "\<dots> = Suc i * prod_list ds" by simp
  also have "\<dots> \<le> d * prod_list ds"
    using i by (intro mult_le_mono1) simp
  finally show ?case by (simp add: ix)
qed

lemma unravel_ravel: "valid_index shp ix \<Longrightarrow> unravel shp (ravel shp ix) = ix"
proof (induction shp arbitrary: ix)
  case Nil
  then show ?case by simp
next
  case (Cons d ds)
  then obtain i "is" where ix: "ix = i # is" and i: "i < d" and v: "valid_index ds is"
    by (auto simp add: valid_index_Cons)
  have r: "ravel ds is < prod_list ds" using ravel_less[OF v] .
  show ?case using r Cons.IH[OF v] by (simp add: ix)
qed

lemma ravel_unravel: "k < prod_list shp \<Longrightarrow> ravel shp (unravel shp k) = k"
proof (induction shp arbitrary: k)
  case Nil
  then show ?case by simp
next
  case (Cons d ds)
  then have pos: "0 < prod_list ds" by (cases "prod_list ds = 0") auto
  then have "k mod prod_list ds < prod_list ds" by simp
  then have "ravel ds (unravel ds (k mod prod_list ds)) = k mod prod_list ds"
    by (rule Cons.IH)
  then show ?case by simp
qed

lemma valid_unravel: "k < prod_list shp \<Longrightarrow> valid_index shp (unravel shp k)"
proof (induction shp arbitrary: k)
  case Nil
  then show ?case by simp
next
  case (Cons d ds)
  then have pos: "0 < prod_list ds" by (cases "prod_list ds = 0") auto
  have "k div prod_list ds < d"
    using Cons.prems pos by (simp add: less_mult_imp_div_less mult.commute)
  moreover have "valid_index ds (unravel ds (k mod prod_list ds))"
    using pos by (intro Cons.IH) simp
  ultimately show ?case by simp
qed

lemma shape_tabulate [simp]: "shape (tabulate shp f) = shp"
  by (simp add: tabulate_def)

lemma well_shaped_tabulate [simp]: "well_shaped (tabulate shp f)"
  by (simp add: tabulate_def well_shaped_def)

lemma dat_tabulate: "k < prod_list shp \<Longrightarrow> dat (tabulate shp f) ! k = f (unravel shp k)"
  by (simp add: tabulate_def)

lemma length_dat_tabulate [simp]: "length (dat (tabulate shp f)) = prod_list shp"
  by (simp add: tabulate_def)

lemma elem_tabulate: "valid_index shp ix \<Longrightarrow> elem (tabulate shp f) ix = f ix"
  by (simp add: elem_def dat_tabulate ravel_less unravel_ravel)

lemma tensor_eqI:
  assumes "well_shaped s" and "well_shaped t" and "shape s = shape t"
    and "\<And>ix. valid_index (shape t) ix \<Longrightarrow> elem s ix = elem t ix"
  shows "s = t"
proof -
  have "dat s = dat t"
  proof (rule nth_equalityI)
    show "length (dat s) = length (dat t)"
      using assms(1-3) by (simp add: well_shaped_def)
  next
    fix k assume "k < length (dat s)"
    then have k: "k < prod_list (shape t)"
      using assms(1,3) by (simp add: well_shaped_def)
    have "elem s (unravel (shape t) k) = elem t (unravel (shape t) k)"
      by (rule assms(4)) (rule valid_unravel[OF k])
    then show "dat s ! k = dat t ! k"
      using k by (simp add: elem_def assms(3) ravel_unravel)
  qed
  then show ?thesis using assms(3) by (simp add: tensor.equality)
qed

lemma tabulate_cong:
  "(\<And>ix. valid_index shp ix \<Longrightarrow> f ix = g ix) \<Longrightarrow> tabulate shp f = tabulate shp g"
  by (rule tensor_eqI) (simp_all add: elem_tabulate)

lemma valid_index4:
  "valid_index [a, b, c, d] ix \<longleftrightarrow> (\<exists>i j k l. ix = [i, j, k, l] \<and> i < a \<and> j < b \<and> k < c \<and> l < d)"
  by (auto simp add: valid_index_Cons)

lemma valid_index3:
  "valid_index [a, b, c] ix \<longleftrightarrow> (\<exists>i j k. ix = [i, j, k] \<and> i < a \<and> j < b \<and> k < c)"
  by (auto simp add: valid_index_Cons)

lemma valid_index2:
  "valid_index [a, b] ix \<longleftrightarrow> (\<exists>i j. ix = [i, j] \<and> i < a \<and> j < b)"
  by (auto simp add: valid_index_Cons)

lemma valid_index1:
  "valid_index [a] ix \<longleftrightarrow> (\<exists>i. ix = [i] \<and> i < a)"
  by (auto simp add: valid_index_Cons)

lemma elem_transpose_0213:
  assumes "shape t = [a, b, c, d]" and "i < a" "k < c" "j < b" "l < d"
  shows "elem (transpose_t t [0, 2, 1, 3]) [i, k, j, l] = elem t [i, j, k, l]"
  using assms by (simp add: transpose_t_def elem_tabulate index_of_def)

lemma shape_transpose_0213:
  "shape t = [a, b, c, d] \<Longrightarrow> shape (transpose_t t [0, 2, 1, 3]) = [a, c, b, d]"
  by (simp add: transpose_t_def)

section \<open>Head split and head combine\<close>

lemma int_mult_not_minus1 [simp]: "int a * int b \<noteq> - 1"
proof -
  have "0 \<le> int a * int b" by simp
  then show ?thesis by linarith
qed

lemma nat_int_mult [simp]: "nat (int a * int b) = a * b"
  by (simp add: nat_mult_distrib)

lemma div_cancel3: "0 < a \<Longrightarrow> 0 < b \<Longrightarrow> (a * (b * c)) div (a * b) = (c::nat)"
  by (metis mult.assoc mult_pos_pos nonzero_mult_div_cancel_left less_numeral_extra(3))

lemma reshape_split1:
  assumes "shape x = [B, L, h * p]" "0 < B" "0 < L" "0 < h" "0 < p"
  shows "reshape x [0, int L, int h, - 1] = Inr (x\<lparr>shape := [B, L, h, p]\<rparr>)"
  using assms by (simp add: reshape_def infer_dims_def)

lemma reshape_split2:
  assumes "shape x = [B, h, L, p]" "0 < B" "0 < L" "0 < h" "0 < p"
  shows "reshape x [- 3, int L, - 1] = Inr (x\<lparr>shape := [B * h, L, p]\<rparr>)"
  using assms by (simp add: reshape_def infer_dims_def div_cancel3)

lemma reshape_combine1:
  assumes "shape x = [B * h, L, p]" "0 < B" "0 < L" "0 < h" "0 < p"
  shows "reshape x [- 4, - 1, int h, int L, 0] = Inr (x\<lparr>shape := [B, h, L, p]\<rparr>)"
  using assms by (simp add: reshape_def infer_dims_def)

lemma reshape_combine2:
  assumes "shape x = [B, L, h, p]" "0 < B" "0 < L" "0 < h" "0 < p"
  shows "reshape x [- 1, int L, - 3] = Inr (x\<lparr>shape := [B, L, h * p]\<rparr>)"
  using assms by (simp add: reshape_def infer_dims_def)


lemma bindE_Inr [simp]: "bindE (Inr x) f = f x"
  by (simp add: bindE_def)

lemma bindE_Inl [simp]: "bindE (Inl e) f = Inl e"
  by (simp add: bindE_def)

lemma transpose_0213_twice:
  assumes "well_shaped t" and "shape t = [a, b, c, d]"
  shows "transpose_t (transpose_t t [0, 2, 1, 3]) [0, 2, 1, 3] = t"
proof (rule tensor_eqI)
  show "well_shaped (transpose_t (transpose_t t [0, 2, 1, 3]) [0, 2, 1, 3])"
    by (simp add: transpose_t_def)
  show "well_shaped t" by fact
  show "shape (transpose_t (transpose_t t [0, 2, 1, 3]) [0, 2, 1, 3]) = shape t"
    using shape_transpose_0213[OF shape_transpose_0213[OF assms(2)]] assms(2) by simp
next
  fix ix assume "valid_index (shape t) ix"
  then obtain i j k l where ix: "ix = [i, j, k, l]" and b: "i < a" "j < b" "k < c" "l < d"
    by (auto simp add: assms(2) valid_index4)
  have "elem (transpose_t (transpose_t t [0, 2, 1, 3]) [0, 2, 1, 3]) [i, j, k, l]
        = elem (transpose_t t [0, 2, 1, 3]) [i, k, j, l]"
    by (rule elem_transpose_0213[OF shape_transpose_0213[OF assms(2)]]) (use b in simp_all)
  also have "\<dots> = elem t [i, j, k, l]"
    by (rule elem_transpose_0213[OF assms(2)]) (use b in simp_all)
  finally show "elem (transpose_t (transpose_t t [0, 2, 1, 3]) [0, 2, 1, 3]) ix = elem t ix"
    by (simp add: ix)
qed

lemma split_heads_value:
  assumes "shape x = [B, L, h * p]" "0 < B" "0 < L" "0 < h" "0 < p"
  shows "split_heads x (int L) (int h) =
           Inr ((transpose_t (x\<lparr>shape := [B, L, h, p]\<rparr>) [0, 2, 1, 3])\<lparr>shape := [B * h, L, p]\<rparr>)"
proof -
  have s: "shape (transpose_t (x\<lparr>shape := [B, L, h, p]\<rparr>) [0, 2, 1, 3]) = [B, h, L, p]"
    by (rule shape_transpose_0213) simp
  show ?thesis
    using reshape_split1[OF assms] reshape_split2[OF s assms(2-5)]
    by (simp add: split_heads_def)
qed

lemma combine_heads_value:
  assumes "shape y = [B * h, L, p]" "0 < B" "0 < L" "0 < h" "0 < p"
  shows "combine_heads y (int L) (int h) =
           Inr ((transpose_t (y\<lparr>shape := [B, h, L, p]\<rparr>) [0, 2, 1, 3])\<lparr>shape := [B, L, h * p]\<rparr>)"
proof -
  have s: "shape (transpose_t (y\<lparr>shape := [B, h, L, p]\<rparr>) [0, 2, 1, 3]) = [B, L, h, p]"
    by (rule shape_transpose_0213) simp
  show ?thesis
    using reshape_combine1[OF assms] reshape_combine2[OF s assms(2-5)]
    by (simp add: combine_heads_def)
qed

text \<open>
  C2. For a tensor \<open>x\<close> of shape \<open>[batch, length, depth]\<close> (all three sizes positive, as the
  sizes of a tensor of the runtime are) and a positive number of heads that divides the
  depth, \<open>split_heads\<close> followed by \<open>combine_heads\<close> with the same length and number of
  heads succeeds and returns exactly \<open>x\<close>.
\<close>

theorem combine_split_heads:
  assumes "well_shaped x" and "shape x = [B, L, D]"
    and "0 < B" and "0 < L" and "0 < D" and "0 < h" and "h dvd D"
  shows "bindE (split_heads x (int L) (int h)) (\<lambda>y. combine_heads y (int L) (int h)) = Inr x"
proof -
  from \<open>h dvd D\<close> obtain p where D: "D = h * p" ..
  with \<open>0 < D\<close> have p: "0 < p" by (cases "p = 0") simp_all
  define x1 where "x1 = x\<lparr>shape := [B, L, h, p]\<rparr>"
  define t1 where "t1 = transpose_t x1 [0, 2, 1, 3]"
  have sx: "shape x = [B, L, h * p]" using assms(2) D by simp
  have x1: "well_shaped x1" "shape x1 = [B, L, h, p]"
    using assms(1) sx by (simp_all add: x1_def well_shaped_def ac_simps)
  have t1: "shape t1 = [B, h, L, p]"
    unfolding t1_def by (rule shape_transpose_0213) (rule x1(2))
  have sp: "split_heads x (int L) (int h) = Inr (t1\<lparr>shape := [B * h, L, p]\<rparr>)"
    unfolding t1_def x1_def by (rule split_heads_value[OF sx assms(3,4,6) p])
  have restore: "(t1\<lparr>shape := [B * h, L, p]\<rparr>)\<lparr>shape := [B, h, L, p]\<rparr> = t1"
    using t1 by simp
  have "combine_heads (t1\<lparr>shape := [B * h, L, p]\<rparr>) (int L) (int h) =
          Inr ((transpose_t t1 [0, 2, 1, 3])\<lparr>shape := [B, L, h * p]\<rparr>)"
    using combine_heads_value[of "t1\<lparr>shape := [B * h, L, p]\<rparr>" B h L p] assms(3,4,6) p
    by (simp add: restore)
  also have "transpose_t t1 [0, 2, 1, 3] = x1"
    unfolding t1_def by (rule transpose_0213_twice[OF x1])
  also have "x1\<lparr>shape := [B, L, h * p]\<rparr> = x"
    using sx by (simp add: x1_def)
  finally show ?thesis by (simp add: sp)
qed

theorem combine_split_heads_witness:
  "bindE (split_heads \<lparr>shape = [2, 2, 4], dat = map real [0..<16]\<rparr> 2 2)
         (\<lambda>y. combine_heads y 2 2) = Inr \<lparr>shape = [2, 2, 4], dat = map real [0..<16]\<rparr>"
proof -
  have "well_shaped \<lparr>shape = [2, 2, 4], dat = map real [0..<16]\<rparr>"
    by (simp add: well_shaped_def)
  from combine_split_heads[OF this, of 2 2 4 2] show ?thesis by simp
qed

section \<open>Layer normalization\<close>

lemma shape_broadcast_col:
  "shape a = [B, H] \<Longrightarrow> shape b = [B, 1] \<Longrightarrow> 0 < H \<Longrightarrow> shape (broadcast_op f a b) = [B, H]"
  by (simp add: broadcast_op_def pad_shape_def Let_def max_def)

lemma elem_broadcast_col:
  assumes "shape a = [B, H]" "shape b = [B, 1]" "i < B" "j < H"
  shows "elem (broadcast_op f a b) [i, j] = f (elem a [i, j]) (elem b [i, 0])"
proof -
  have "elem (broadcast_op f a b) [i, j] =
          f (dat a ! ravel [B, H] (bindex [B, H] [i, j]))
            (dat b ! ravel [B, 1] (bindex [B, 1] [i, j]))"
    using assms by (simp add: broadcast_op_def pad_shape_def Let_def elem_tabulate)
  then show ?thesis
    using assms by (auto simp add: bindex_def elem_def)
qed

lemma shape_broadcast_row:
  "shape a = [B, H] \<Longrightarrow> shape b = [H] \<Longrightarrow> 0 < B \<Longrightarrow> shape (broadcast_op f a b) = [B, H]"
  by (simp add: broadcast_op_def pad_shape_def Let_def max_def)

lemma elem_broadcast_row:
  assumes "shape a = [B, H]" "shape b = [H]" "i < B" "j < H"
  shows "elem (broadcast_op f a b) [i, j] = f (elem a [i, j]) (elem b [j])"
proof -
  have "elem (broadcast_op f a b) [i, j] =
          f (dat a ! ravel [B, H] (bindex [B, H] [i, j]))
            (dat b ! ravel [1, H] (bindex [1, H] [i, j]))"
    using assms by (simp add: broadcast_op_def pad_shape_def Let_def elem_tabulate)
  then show ?thesis
    using assms by (auto simp add: bindex_def elem_def)
qed

lemma well_shaped_broadcast [simp]: "well_shaped (broadcast_op f a b)"
  by (simp add: broadcast_op_def Let_def)

lemma shape_map_tensor [simp]: "shape (map_tensor f t) = shape t"
  by (simp add: map_tensor_def)

lemma well_shaped_map_tensor [simp]: "well_shaped (map_tensor f t) = well_shaped t"
  by (simp add: map_tensor_def well_shaped_def)

lemma elem_map_tensor:
  "well_shaped t \<Longrightarrow> valid_index (shape t) ix \<Longrightarrow> elem (map_tensor f t) ix = f (elem t ix)"
  by (simp add: map_tensor_def elem_def well_shaped_def ravel_less)

lemma shape_mean_axis1 [simp]: "shape (mean_axis1 t) = [shape t ! 0, 1]"
  by (simp add: mean_axis1_def)

lemma well_shaped_mean_axis1 [simp]: "well_shaped (mean_axis1 t)"
  by (simp add: mean_axis1_def)

lemma elem_mean_axis1:
  "shape t = [B, H] \<Longrightarrow> i < B \<Longrightarrow>
   elem (mean_axis1 t) [i, 0] = (\<Sum>j\<leftarrow>[0..<H]. elem t [i, j]) / real H"
  by (simp add: mean_axis1_def elem_tabulate)

lemma sum_list_upt_cong:
  "(\<And>j. j < n \<Longrightarrow> f j = g j) \<Longrightarrow> (\<Sum>j\<leftarrow>[0..<n]. f j) = (\<Sum>j\<leftarrow>[0..<n]. (g j :: real))"
  by (rule arg_cong[where f = sum_list]) simp


lemma normalize_elem:
  assumes x: "well_shaped x" "shape x = [B, H]" and B: "0 < B" and H: "0 < H"
    and sc: "shape (value_of E (ln_scale N)) = [H]" and sh: "shape (value_of E (ln_shift N)) = [H]"
    and i: "i < B" and j: "j < H"
  shows "shape (LayerNormalization_normalize E N x eps) = [B, H]"
    and "elem (LayerNormalization_normalize E N x eps) [i, j] =
          elem (value_of E (ln_scale N)) [j] * (elem x [i, j] - row_mean x i)
            / sqrt (row_var x i + eps) + elem (value_of E (ln_shift N)) [j]"
proof -
  define mean where "mean = mean_axis1 x"
  define d where "d = broadcast_minus x mean"
  define var where "var = mean_axis1 (square d)"
  define r where "r = map_tensor rsqrt (map_tensor (\<lambda>v. v + eps) var)"
  define n2 where "n2 = broadcast_mul d r"
  define n3 where "n3 = broadcast_mul n2 (value_of E (ln_scale N))"
  define n4 where "n4 = broadcast_add n3 (value_of E (ln_shift N))"
  have norm: "LayerNormalization_normalize E N x eps = n4"
    by (simp add: LayerNormalization_normalize_def LayerNormalization_moments_def Let_def n4_def n3_def n2_def r_def var_def d_def
          mean_def)
  have mean_shape: "shape mean = [B, 1]"
    by (simp add: mean_def x(2))
  have mean_elem: "elem mean [i', 0] = row_mean x i'" if "i' < B" for i'
    using that by (simp add: mean_def elem_mean_axis1[OF x(2)] row_mean_def x(2))
  have d_shape: "shape d = [B, H]"
    unfolding d_def broadcast_minus_def by (rule shape_broadcast_col[OF x(2) mean_shape H])
  have d_ws: "well_shaped d"
    by (simp add: d_def broadcast_minus_def)
  have d_elem: "elem d [i', j'] = elem x [i', j'] - row_mean x i'" if "i' < B" "j' < H" for i' j'
    unfolding d_def broadcast_minus_def
    using that by (simp add: elem_broadcast_col[OF x(2) mean_shape] mean_elem)
  have sq_shape: "shape (square d) = [B, H]"
    by (simp add: square_def d_shape)
  have sq_elem: "elem (square d) [i', j'] = (elem x [i', j'] - row_mean x i')\<^sup>2"
    if "i' < B" "j' < H" for i' j'
    using that
    by (simp add: square_def elem_map_tensor[OF d_ws] d_shape d_elem power2_eq_square)
  have var_shape: "shape var = [B, 1]"
    by (simp add: var_def sq_shape)
  have var_elem: "elem var [i', 0] = row_var x i'" if "i' < B" for i'
  proof -
    have "elem var [i', 0] = (\<Sum>j'\<leftarrow>[0..<H]. elem (square d) [i', j']) / real H"
      unfolding var_def by (rule elem_mean_axis1[OF sq_shape that])
    also have "(\<Sum>j'\<leftarrow>[0..<H]. elem (square d) [i', j'])
                 = (\<Sum>j'\<leftarrow>[0..<H]. (elem x [i', j'] - row_mean x i')\<^sup>2)"
      by (rule sum_list_upt_cong) (rule sq_elem[OF that])
    finally show ?thesis by (simp add: row_var_def x(2))
  qed
  have var_ws: "well_shaped var"
    by (simp add: var_def)
  have r_shape: "shape r = [B, 1]"
    by (simp add: r_def var_shape)
  have r_elem: "elem r [i', 0] = rsqrt (row_var x i' + eps)" if "i' < B" for i'
    using that
    by (simp add: r_def elem_map_tensor var_ws var_shape var_elem)
  have n2_shape: "shape n2 = [B, H]"
    unfolding n2_def broadcast_mul_def by (rule shape_broadcast_col[OF d_shape r_shape H])
  have n2_elem: "elem n2 [i, j] = (elem x [i, j] - row_mean x i) * rsqrt (row_var x i + eps)"
    unfolding n2_def broadcast_mul_def
    using i j by (simp add: elem_broadcast_col[OF d_shape r_shape] d_elem r_elem)
  have n3_shape: "shape n3 = [B, H]"
    unfolding n3_def broadcast_mul_def by (rule shape_broadcast_row[OF n2_shape sc B])
  have n3_elem: "elem n3 [i, j] = elem n2 [i, j] * elem (value_of E (ln_scale N)) [j]"
    unfolding n3_def broadcast_mul_def by (rule elem_broadcast_row[OF n2_shape sc i j])
  have n4_shape: "shape n4 = [B, H]"
    unfolding n4_def broadcast_add_def by (rule shape_broadcast_row[OF n3_shape sh B])
  have n4_elem: "elem n4 [i, j] = elem n3 [i, j] + elem (value_of E (ln_shift N)) [j]"
    unfolding n4_def broadcast_add_def by (rule elem_broadcast_row[OF n3_shape sh i j])
  show "shape (LayerNormalization_normalize E N x eps) = [B, H]"
    by (simp add: norm n4_shape)
  show "elem (LayerNormalization_normalize E N x eps) [i, j] =
          elem (value_of E (ln_scale N)) [j] * (elem x [i, j] - row_mean x i)
            / sqrt (row_var x i + eps) + elem (value_of E (ln_shift N)) [j]"
    by (simp add: norm n4_elem n3_elem n2_elem rsqrt_def)
qed

lemma well_shaped_normalize [simp]: "well_shaped (LayerNormalization_normalize E N x eps)"
  by (simp add: LayerNormalization_normalize_def LayerNormalization_moments_def Let_def broadcast_add_def)

text \<open>
  C7. For a matrix \<open>x\<close> of shape \<open>[batch, H]\<close> with \<open>H > 1\<close> and scale and shift vectors of
  shape \<open>[H]\<close>, \<open>normalize\<close> returns the tensor whose element in row \<open>i\<close> and column \<open>j\<close> is
  \<open>scale j * (x i j - mean i) / sqrt (var i + eps) + shift j\<close>, where \<open>mean i\<close> is the
  mean of row \<open>i\<close> and \<open>var i\<close> the mean of the squared deviations of row \<open>i\<close> from it.
\<close>

theorem normalize_formula:
  assumes "well_shaped x" and "shape x = [B, H]" and "0 < B" and "1 < H"
    and "shape (value_of E (ln_scale N)) = [H]" and "shape (value_of E (ln_shift N)) = [H]"
  shows "LayerNormalization_normalize E N x eps = spec_normalize (value_of E (ln_scale N)) (value_of E (ln_shift N)) x eps"
proof (rule tensor_eqI)
  have H: "0 < H" using assms(4) by simp
  show "well_shaped (LayerNormalization_normalize E N x eps)" by simp
  show "well_shaped (spec_normalize (value_of E (ln_scale N)) (value_of E (ln_shift N)) x eps)"
    by (simp add: spec_normalize_def)
  have "shape (LayerNormalization_normalize E N x eps) = [B, H]"
  proof -
    have "0 < B" by fact
    from normalize_elem(1)[OF assms(1,2,3) H assms(5,6) this H] show ?thesis .
  qed
  then show "shape (LayerNormalization_normalize E N x eps) =
        shape (spec_normalize (value_of E (ln_scale N)) (value_of E (ln_shift N)) x eps)"
    by (simp add: spec_normalize_def assms(2))
  fix ix
  assume "valid_index (shape (spec_normalize (value_of E (ln_scale N)) (value_of E (ln_shift N)) x eps)) ix"
  then obtain i j where ix: "ix = [i, j]" and i: "i < B" and j: "j < H"
    by (auto simp add: spec_normalize_def assms(2) valid_index2)
  have v: "valid_index (shape x) [i, j]"
    using i j by (simp add: assms(2))
  show "elem (LayerNormalization_normalize E N x eps) ix =
        elem (spec_normalize (value_of E (ln_scale N)) (value_of E (ln_shift N)) x eps) ix"
    unfolding ix spec_normalize_def
    by (simp add: normalize_elem(2)[OF assms(1,2,3) H assms(5,6) i j] elem_tabulate[OF v])
qed

theorem normalize_formula_witness:
  "well_shaped \<lparr>shape = [1, 2], dat = [1, 3]\<rparr>
   \<and> shape (value_of example_env (ln_scale example_norm)) = [2]
   \<and> LayerNormalization_normalize example_env example_norm \<lparr>shape = [1, 2], dat = [1, 3]\<rparr> default_eps =
       spec_normalize (value_of example_env (ln_scale example_norm))
         (value_of example_env (ln_shift example_norm)) \<lparr>shape = [1, 2], dat = [1, 3]\<rparr> default_eps"
proof -
  have w: "well_shaped \<lparr>shape = [1, 2], dat = [1, 3]\<rparr>"
    by (simp add: well_shaped_def)
  have s: "shape (value_of example_env (ln_scale example_norm)) = [2]"
    "shape (value_of example_env (ln_shift example_norm)) = [2]"
    by (simp_all add: value_of_def example_env_def)
  from normalize_formula[OF w _ _ _ s, of 1 default_eps] w s
  show ?thesis by simp
qed

section \<open>Length masking\<close>

lemma broadcast_lengths_value:
  assumes "shape x = [B]" "0 < B" "0 < h"
  shows "broadcast_lengths x (int h) =
           Inr \<lparr>shape = [B * h], dat = map (\<lambda>n. dat x ! (n div h)) [0..<B * h]\<rparr>"
proof -
  define y where "y = expand_dims x 1"
  define z where "z = tabulate [B, h] (\<lambda>ix. elem y (bindex [B, 1] ix))"
  have e: "shape y = [B, 1]" "dat y = dat x"
    using assms(1) by (simp_all add: y_def expand_dims_def)
  have b: "broadcast_to y [0, int h] = Inr z"
    using assms(3) by (simp add: broadcast_to_def e z_def)
  have d: "dat z = map (\<lambda>n. dat x ! (n div h)) [0..<B * h]"
  proof (rule nth_equalityI)
    show "length (dat z) = length (map (\<lambda>n. dat x ! (n div h)) [0..<B * h])"
      by (simp add: z_def)
  next
    fix n assume "n < length (dat z)"
    then have n: "n < B * h" by (simp add: z_def)
    then have "n div h < B"
      using assms(3) by (simp add: less_mult_imp_div_less)
    then show "dat z ! n = map (\<lambda>n. dat x ! (n div h)) [0..<B * h] ! n"
      using n by (auto simp add: z_def dat_tabulate bindex_def elem_def e)
  qed
  have r: "reshape z [- 3] = Inr (z\<lparr>shape := [B * h]\<rparr>)"
    by (simp add: reshape_def infer_dims_def z_def)
  have "broadcast_lengths x (int h) = Inr (z\<lparr>shape := [B * h]\<rparr>)"
    unfolding broadcast_lengths_def y_def[symmetric] by (simp add: b r)
  also have "z\<lparr>shape := [B * h]\<rparr> = \<lparr>shape = [B * h], dat = map (\<lambda>n. dat x ! (n div h)) [0..<B * h]\<rparr>"
    by (simp add: d)
  finally show ?thesis .
qed

lemma elem_transpose_201:
  assumes "shape t = [a, b, c]" and "i < a" "j < b" "k < c"
  shows "elem (transpose_t t [2, 0, 1]) [k, i, j] = elem t [i, j, k]"
  using assms by (simp add: transpose_t_def elem_tabulate index_of_def)

lemma shape_transpose_201:
  "shape t = [a, b, c] \<Longrightarrow> shape (transpose_t t [2, 0, 1]) = [c, a, b]"
  by (simp add: transpose_t_def)

lemma elem_transpose_120:
  assumes "shape t = [c, a, b]" and "i < a" "j < b" "k < c"
  shows "elem (transpose_t t [1, 2, 0]) [i, j, k] = elem t [k, i, j]"
  using assms by (simp add: transpose_t_def elem_tabulate index_of_def)

lemma shape_transpose_120:
  "shape t = [c, a, b] \<Longrightarrow> shape (transpose_t t [1, 2, 0]) = [a, b, c]"
  by (simp add: transpose_t_def)

lemma well_shaped_transpose [simp]: "well_shaped (transpose_t t axes)"
  by (simp add: transpose_t_def)

lemma shape_SequenceMask [simp]: "shape (SequenceMask d l v) = shape d"
  by (simp add: SequenceMask_def)

lemma elem_SequenceMask:
  "valid_index (shape d) ix \<Longrightarrow> 0 \<le> dat l ! (ix ! 1) \<Longrightarrow>
   elem (SequenceMask d l v) ix = (if nat \<lfloor>dat l ! (ix ! 1)\<rfloor> \<le> ix ! 0 then v else elem d ix)"
  by (simp add: SequenceMask_def elem_tabulate seq_pos_def Let_def)

lemma mask_logits_value:
  assumes "shape logits = [B * h, L, L]" and "shape valid_length = [B]"
    and "0 < B" and "0 < h" and nonneg: "\<And>b. b < B \<Longrightarrow> 0 \<le> elem valid_length [b]"
  shows "mask_logits logits valid_length (int h) = Inr (spec_mask_logits logits valid_length h)"
proof -
  define r where "r = \<lparr>shape = [B * h], dat = map (\<lambda>n. dat valid_length ! (n div h)) [0..<B * h]\<rparr>"
  define T where "T = transpose_t logits [2, 0, 1]"
  define M where "M = SequenceMask T r (- 99999999)"
  have T_shape: "shape T = [L, B * h, L]"
    unfolding T_def by (rule shape_transpose_201[OF assms(1)])
  have M_shape: "shape M = [L, B * h, L]"
    by (simp add: M_def T_shape)
  have val: "mask_logits logits valid_length (int h) = Inr (transpose_t M [1, 2, 0])"
    unfolding mask_logits_def Let_def T_def[symmetric]
    by (simp add: broadcast_lengths_value[OF assms(2,3,4)] r_def[symmetric] M_def)
  have "transpose_t M [1, 2, 0] = spec_mask_logits logits valid_length h"
  proof (rule tensor_eqI)
    show "well_shaped (transpose_t M [1, 2, 0])" by simp
    show "well_shaped (spec_mask_logits logits valid_length h)"
      by (simp add: spec_mask_logits_def)
    show "shape (transpose_t M [1, 2, 0]) = shape (spec_mask_logits logits valid_length h)"
      using shape_transpose_120[OF M_shape] by (simp add: spec_mask_logits_def assms(1))
  next
    fix ix assume "valid_index (shape (spec_mask_logits logits valid_length h)) ix"
    then obtain n q k where ix: "ix = [n, q, k]" and n: "n < B * h" and q: "q < L" and k: "k < L"
      by (auto simp add: spec_mask_logits_def assms(1) valid_index3)
    have nb: "n div h < B"
      using n assms(4) by (simp add: less_mult_imp_div_less)
    have len: "dat r ! n = elem valid_length [n div h]"
      using n by (simp add: r_def elem_def assms(2))
    have pos: "0 \<le> dat r ! n"
      using nonneg[OF nb] by (simp add: len)
    have "elem (transpose_t M [1, 2, 0]) [n, q, k] = elem M [k, n, q]"
      by (rule elem_transpose_120[OF M_shape n q k])
    also have "\<dots> = (if nat \<lfloor>dat r ! n\<rfloor> \<le> k then - 99999999 else elem T [k, n, q])"
      unfolding M_def using n q k pos by (simp add: elem_SequenceMask T_shape)
    also have "elem T [k, n, q] = elem logits [n, q, k]"
      unfolding T_def by (rule elem_transpose_201[OF assms(1) n q k])
    finally show "elem (transpose_t M [1, 2, 0]) ix = elem (spec_mask_logits logits valid_length h) ix"
      using n q k by (simp add: ix len spec_mask_logits_def elem_tabulate assms(1))
  qed
  with val show ?thesis by simp
qed

section \<open>The steps of the across-gates cells\<close>

lemma shape_FullyConnected [simp]: "shape (FullyConnected x w b n) = [hd (shape x), n]"
  by (simp add: FullyConnected_def Let_def)

lemma well_shaped_FullyConnected [simp]: "well_shaped (FullyConnected x w b n)"
  by (simp add: FullyConnected_def Let_def)

lemma zeros_like_FullyConnected:
  "zeros_like (FullyConnected x w b n) = zeros [hd (shape x), n]"
proof -
  have "length (dat (FullyConnected x w b n)) = hd (shape x) * n"
    using well_shaped_FullyConnected[of x w b n] unfolding well_shaped_def by simp
  then show ?thesis
    by (simp add: zeros_like_def map_tensor_def zeros_def map_replicate_const)
qed

lemma zeros_plus:
  assumes "well_shaped t"
  shows "elemwise (+) (zeros (shape t)) t = t"
proof -
  have "map2 (+) (replicate (length (dat t)) 0) (dat t) = dat t"
    by (rule nth_equalityI) simp_all
  then show ?thesis
    using assms by (simp add: elemwise_def zeros_def well_shaped_def)
qed

lemma placeholder_plus:
  "hd (shape h) = hd (shape x) \<Longrightarrow>
   elemwise (+) (zeros [hd (shape x), n]) (FullyConnected h w b n) = FullyConnected h w b n"
  using zeros_plus[of "FullyConnected h w b n"] by simp

lemma split_nth: "j < n \<Longrightarrow> split t n axis ! j = split_part t n axis j"
  by (simp add: split_def)


lemma py_get_0 [simp]: "py_get (a # xs) 0 = Inr a"
  by (simp add: py_get_def)

lemma py_get_1 [simp]: "py_get (a # b # xs) (Suc 0) = Inr b"
  by (simp add: py_get_def)

lemma lstm_call_ready:
  assumes "lstm_ready cell (hd (shape x))" and "hd (shape h_prev) = hd (shape x)"
  shows "LayerNormLSTMCell_call E cell x [h_prev, c_prev] =
           Inr (fst (spec_lstm_step E cell x h_prev c_prev),
                [fst (spec_lstm_step E cell x h_prev c_prev),
                 snd (spec_lstm_step E cell x h_prev c_prev)],
                cell\<lparr>lnl_base := (lnl_base cell)\<lparr>bc_counter := bc_counter (lnl_base cell) + 1\<rparr>,
                     lnl_shape_fix :=
                       Some (zeros [hd (shape x), nat (bc_num_hidden (lnl_base cell) * 4)])\<rparr>)"
proof (cases "bc_counter (lnl_base cell) = - 1")
  case True
  then show ?thesis
    unfolding LayerNormLSTMCell_call_def spec_lstm_step_def
    by (simp add: Let_def zeros_like_FullyConnected placeholder_plus[OF assms(2)] split_nth)
next
  case False
  with assms(1) have c: "0 \<le> bc_counter (lnl_base cell)"
    and z: "lnl_shape_fix cell = Some (zeros [hd (shape x), nat (bc_num_hidden (lnl_base cell) * 4)])"
    by (simp_all add: lstm_ready_def lstm_later_def)
  from c have n: "bc_counter (lnl_base cell) + 1 \<noteq> 0" by simp
  show ?thesis
    unfolding LayerNormLSTMCell_call_def spec_lstm_step_def
    by (simp add: Let_def n z placeholder_plus[OF assms(2)] split_nth)
qed

lemma gru_call_ready:
  assumes "gru_ready cell (hd (shape x))" and "hd (shape h_prev) = hd (shape x)"
  shows "LayerNormGRUCell_call E cell x [h_prev] =
           Inr (spec_gru_step E cell x h_prev, [spec_gru_step E cell x h_prev],
                cell\<lparr>lng_base := (lng_base cell)\<lparr>bc_counter := bc_counter (lng_base cell) + 1\<rparr>,
                     lng_shape_fix :=
                       Some (zeros [hd (shape x), nat (bc_num_hidden (lng_base cell) * 3)])\<rparr>)"
proof (cases "bc_counter (lng_base cell) = - 1")
  case True
  then show ?thesis
    unfolding LayerNormGRUCell_call_def spec_gru_step_def
    by (simp add: Let_def zeros_like_FullyConnected placeholder_plus[OF assms(2)] split_nth)
next
  case False
  with assms(1) have c: "0 \<le> bc_counter (lng_base cell)"
    and z: "lng_shape_fix cell = Some (zeros [hd (shape x), nat (bc_num_hidden (lng_base cell) * 3)])"
    by (simp_all add: gru_ready_def gru_later_def)
  from c have n: "bc_counter (lng_base cell) + 1 \<noteq> 0" by simp
  show ?thesis
    unfolding LayerNormGRUCell_call_def spec_gru_step_def
    by (simp add: Let_def n z placeholder_plus[OF assms(2)] split_nth)
qed

lemma spec_lstm_step_params:
  "lnl_base c' = (lnl_base c)\<lparr>bc_counter := k\<rparr> \<Longrightarrow> lnl_iN c' = lnl_iN c \<Longrightarrow>
   lnl_hN c' = lnl_hN c \<Longrightarrow> lnl_cN c' = lnl_cN c \<Longrightarrow>
   spec_lstm_step E c' = spec_lstm_step E c"
  by (intro ext) (simp add: spec_lstm_step_def Let_def)

lemma spec_gru_step_params:
  "lng_base c' = (lng_base c)\<lparr>bc_counter := k\<rparr> \<Longrightarrow> lng_iN c' = lng_iN c \<Longrightarrow>
   lng_hN c' = lng_hN c \<Longrightarrow>
   spec_gru_step E c' = spec_gru_step E c"
  by (intro ext) (simp add: spec_gru_step_def Let_def)

lemma lstm_ready_example: "lstm_ready example_lstm B"
  by (simp add: lstm_ready_def example_lstm_def LSTMCell_init_def RNNParams_get_def
        RNNParams_init_def Let_def)

lemma gru_ready_example: "gru_ready example_gru B"
  by (simp add: gru_ready_def example_gru_def GRUCell_init_def RNNParams_get_def
        RNNParams_init_def Let_def)

text \<open>
  C5. Called on an input \<open>x\<close> and the states \<open>(h_prev, c_prev)\<close> of the same batch size, in
  a state in which it can be called (before its first call, or later with the placeholder
  of that batch size), the across-gates LSTM cell returns the output \<open>h\<close> and the new states
  \<open>(h, c)\<close> of the specification's step: the sum of the two separately normalized
  projections, split in the order input gate, forget gate, candidate, output gate, with
  sigmoid, sigmoid, tanh and sigmoid, \<open>c = forgetGate * c_prev + inGate * candidate\<close> and
  \<open>h = outGate * tanh (normCell c)\<close>.
\<close>

theorem lstm_step_formula:
  assumes "lstm_ready cell (hd (shape x))" and "hd (shape h_prev) = hd (shape x)"
  shows "outputs (LayerNormLSTMCell_call E cell x [h_prev, c_prev]) =
           Inr (fst (spec_lstm_step E cell x h_prev c_prev),
                [fst (spec_lstm_step E cell x h_prev c_prev),
                 snd (spec_lstm_step E cell x h_prev c_prev)])"
  by (simp add: lstm_call_ready[OF assms] outputs_def)

theorem lstm_step_formula_witness:
  "lstm_ready example_lstm (hd (shape example_x))
   \<and> outputs (LayerNormLSTMCell_call example_env example_lstm example_x [example_x, example_x]) =
       Inr (fst (spec_lstm_step example_env example_lstm example_x example_x example_x),
            [fst (spec_lstm_step example_env example_lstm example_x example_x example_x),
             snd (spec_lstm_step example_env example_lstm example_x example_x example_x)])"
  using lstm_step_formula[OF lstm_ready_example, of example_x example_x example_env example_x]
    lstm_ready_example
  by simp

text \<open>
  C6. Called on an input \<open>x\<close> and the state \<open>h_prev\<close> of the same batch size, in a state in
  which it can be called, the across-gates GRU cell returns as output and as new state the
  \<open>h\<close> of the specification's step: each projection normalized by its own unit and split
  into reset, update and candidate chunks, \<open>resetGate = sigmoid (i2h_r + h2h_r)\<close>,
  \<open>updateGate = sigmoid (i2h_z + h2h_z)\<close>, \<open>candidate = tanh (i2h_c + resetGate * h2h_c)\<close>
  and \<open>h = (1 - updateGate) * candidate + updateGate * h_prev\<close>.
\<close>

theorem gru_step_formula:
  assumes "gru_ready cell (hd (shape x))" and "hd (shape h_prev) = hd (shape x)"
  shows "outputs (LayerNormGRUCell_call E cell x [h_prev]) =
           Inr (spec_gru_step E cell x h_prev, [spec_gru_step E cell x h_prev])"
  by (simp add: gru_call_ready[OF assms] outputs_def)

theorem gru_step_formula_witness:
  "gru_ready example_gru (hd (shape example_x))
   \<and> outputs (LayerNormGRUCell_call example_env example_gru example_x [example_x]) =
       Inr (spec_gru_step example_env example_gru example_x example_x,
            [spec_gru_step example_env example_gru example_x example_x])"
  using gru_step_formula[OF gru_ready_example, of example_x example_x example_env]
    gru_ready_example
  by simp

lemma zeros_like_zeros: "well_shaped t \<Longrightarrow> zeros_like t = zeros (shape t)"
  by (simp add: zeros_like_def map_tensor_def zeros_def well_shaped_def map_replicate_const)

lemma placeholder_vanishes:
  assumes "well_shaped i2h" and "well_shaped h2h" and "shape i2h = shape h2h"
  shows "elemwise (+) (zeros_like i2h) h2h = h2h"
  using zeros_plus[OF assms(2)] by (simp add: zeros_like_zeros[OF assms(1)] assms(3))

lemma lstm_later_after:
  "lstm_ready cell B \<Longrightarrow>
   lstm_later (cell\<lparr>lnl_base := (lnl_base cell)\<lparr>bc_counter := bc_counter (lnl_base cell) + 1\<rparr>,
                    lnl_shape_fix := Some (zeros [B, nat (bc_num_hidden (lnl_base cell) * 4)])\<rparr>) B"
  by (auto simp add: lstm_ready_def lstm_later_def)

lemma gru_later_after:
  "gru_ready cell B \<Longrightarrow>
   gru_later (cell\<lparr>lng_base := (lng_base cell)\<lparr>bc_counter := bc_counter (lng_base cell) + 1\<rparr>,
                   lng_shape_fix := Some (zeros [B, nat (bc_num_hidden (lng_base cell) * 3)])\<rparr>) B"
  by (auto simp add: gru_ready_def gru_later_def)

text \<open>
  C9. The tensor of zeros that the first call of an across-gates cell makes from its input
  projection, and that every call adds to the hidden projection, changes nothing: for
  tensors of one shape, normalizing \<open>0 + h2h\<close> is normalizing \<open>h2h\<close>. A call of the LSTM or
  of the GRU cell, the first one (counter \<open>-1\<close>, when the placeholder is created) as well as
  any later one (with the placeholder of the first), succeeds, returns what the
  placeholder-free step of the specification returns, and leaves a cell that is in the
  state of a later call and has the same step: the first step and the later steps are one
  and the same function.
\<close>

theorem placeholder_neutral:
  "(well_shaped i2h \<and> well_shaped h2h \<and> shape i2h = shape h2h \<longrightarrow>
      LayerNormalization_normalize E N (elemwise (+) (zeros_like i2h) h2h) eps
        = LayerNormalization_normalize E N h2h eps)
   \<and> (lstm_ready lstm (hd (shape x)) \<and> hd (shape h) = hd (shape x) \<longrightarrow>
        (\<exists>lstm'. LayerNormLSTMCell_call E lstm x [h, c] =
                    Inr (fst (spec_lstm_step E lstm x h c),
                         [fst (spec_lstm_step E lstm x h c), snd (spec_lstm_step E lstm x h c)],
                         lstm')
                 \<and> lstm_later lstm' (hd (shape x))
                 \<and> spec_lstm_step E lstm' = spec_lstm_step E lstm))
   \<and> (gru_ready gru (hd (shape x)) \<and> hd (shape h) = hd (shape x) \<longrightarrow>
        (\<exists>gru'. LayerNormGRUCell_call E gru x [h] =
                    Inr (spec_gru_step E gru x h, [spec_gru_step E gru x h], gru')
                 \<and> gru_later gru' (hd (shape x))
                 \<and> spec_gru_step E gru' = spec_gru_step E gru))"
proof (intro conjI impI)
  assume "well_shaped i2h \<and> well_shaped h2h \<and> shape i2h = shape h2h"
  then show "LayerNormalization_normalize E N (elemwise (+) (zeros_like i2h) h2h) eps
        = LayerNormalization_normalize E N h2h eps"
    by (simp add: placeholder_vanishes)
next
  assume a: "lstm_ready lstm (hd (shape x)) \<and> hd (shape h) = hd (shape x)"
  let ?c = "lstm\<lparr>lnl_base := (lnl_base lstm)\<lparr>bc_counter := bc_counter (lnl_base lstm) + 1\<rparr>,
                  lnl_shape_fix :=
                    Some (zeros [hd (shape x), nat (bc_num_hidden (lnl_base lstm) * 4)])\<rparr>"
  have "LayerNormLSTMCell_call E lstm x [h, c] =
          Inr (fst (spec_lstm_step E lstm x h c),
               [fst (spec_lstm_step E lstm x h c), snd (spec_lstm_step E lstm x h c)], ?c)"
    using a by (intro lstm_call_ready) simp_all
  moreover have "lstm_later ?c (hd (shape x))"
    using a by (intro lstm_later_after) simp
  moreover have "spec_lstm_step E ?c = spec_lstm_step E lstm"
    by (rule spec_lstm_step_params) simp_all
  ultimately show "\<exists>lstm'. LayerNormLSTMCell_call E lstm x [h, c] =
                    Inr (fst (spec_lstm_step E lstm x h c),
                         [fst (spec_lstm_step E lstm x h c), snd (spec_lstm_step E lstm x h c)],
                         lstm')
                 \<and> lstm_later lstm' (hd (shape x))
                 \<and> spec_lstm_step E lstm' = spec_lstm_step E lstm"
    by blast
next
  assume a: "gru_ready gru (hd (shape x)) \<and> hd (shape h) = hd (shape x)"
  let ?c = "gru\<lparr>lng_base := (lng_base gru)\<lparr>bc_counter := bc_counter (lng_base gru) + 1\<rparr>,
                 lng_shape_fix :=
                   Some (zeros [hd (shape x), nat (bc_num_hidden (lng_base gru) * 3)])\<rparr>"
  have "LayerNormGRUCell_call E gru x [h] =
          Inr (spec_gru_step E gru x h, [spec_gru_step E gru x h], ?c)"
    using a by (intro gru_call_ready) simp_all
  moreover have "gru_later ?c (hd (shape x))"
    using a by (intro gru_later_after) simp
  moreover have "spec_gru_step E ?c = spec_gru_step E gru"
    by (rule spec_gru_step_params) simp_all
  ultimately show "\<exists>gru'. LayerNormGRUCell_call E gru x [h] =
                    Inr (spec_gru_step E gru x h, [spec_gru_step E gru x h], gru')
                 \<and> gru_later gru' (hd (shape x))
                 \<and> spec_gru_step E gru' = spec_gru_step E gru"
    by blast
qed

lemma well_shaped_example_x: "well_shaped example_x"
  by (simp add: example_x_def well_shaped_def)

theorem placeholder_neutral_witness:
  "well_shaped example_x
   \<and> LayerNormalization_normalize example_env example_norm
        (elemwise (+) (zeros_like example_x) example_x) default_eps
       = LayerNormalization_normalize example_env example_norm example_x default_eps
   \<and> lstm_ready example_lstm (hd (shape example_x))
   \<and> (\<exists>lstm'. LayerNormLSTMCell_call example_env example_lstm example_x [example_x, example_x] =
          Inr (fst (spec_lstm_step example_env example_lstm example_x example_x example_x),
               [fst (spec_lstm_step example_env example_lstm example_x example_x example_x),
                snd (spec_lstm_step example_env example_lstm example_x example_x example_x)],
               lstm')
        \<and> lstm_later lstm' (hd (shape example_x))
        \<and> spec_lstm_step example_env lstm' = spec_lstm_step example_env example_lstm)
   \<and> gru_ready example_gru (hd (shape example_x))
   \<and> (\<exists>gru'. LayerNormGRUCell_call example_env example_gru example_x [example_x] =
          Inr (spec_gru_step example_env example_gru example_x example_x,
               [spec_gru_step example_env example_gru example_x example_x], gru')
        \<and> gru_later gru' (hd (shape example_x))
        \<and> spec_gru_step example_env gru' = spec_gru_step example_env example_gru)"
  using placeholder_neutral[of example_x example_x example_env example_norm default_eps
          example_lstm example_x example_x example_x example_gru]
    well_shaped_example_x lstm_ready_example[of "hd (shape example_x)"]
    gru_ready_example[of "hd (shape example_x)"]
  by simp

section \<open>Determinism without dropout\<close>

lemma attend_no_dropout:
  "mha_dropout self \<le> 0 \<Longrightarrow>
   MultiHeadAttention_on E keep1 self inputs inputs_length len
     = MultiHeadAttention_on E keep2 self inputs inputs_length len"
  by (simp add: MultiHeadAttention_on_def)

lemma ffn_no_dropout:
  "ffn_dropout self \<le> 0 \<Longrightarrow> FFNRelu_apply E keep1 self x len = FFNRelu_apply E keep2 self x len"
  by (simp add: FFNRelu_apply_def)

lemma map_sum_Inr: "map_sum f g r = Inr c \<Longrightarrow> \<exists>y. r = Inr y \<and> c = g y"
  by (cases r) auto

lemma make_cell_no_dropout: "make_cell C config p = Inr cell \<Longrightarrow> \<not> has_dropout cell"
  by (auto simp add: make_cell_def split: if_splits dest!: map_sum_Inr)

lemma stack_loop_no_dropout:
  "cfg_dropout config \<le> 0 \<Longrightarrow> \<not> list_ex has_dropout rnn \<Longrightarrow>
   stack_loop C config prefix layers rnn = Inr rnn' \<Longrightarrow> \<not> list_ex has_dropout rnn'"
proof (induction layers arbitrary: rnn)
  case Nil
  then show ?case by simp
next
  case (Cons layer layers)
  obtain cell0 where c0: "make_cell C config (prefix @ ''l'' @ show_nat layer @ ''_'') = Inr cell0"
    using Cons.prems(3) by (cases "make_cell C config (prefix @ ''l'' @ show_nat layer @ ''_'')") simp_all
  have nd: "\<not> has_dropout cell0"
    using c0 by (rule make_cell_no_dropout)
  let ?cell = "if cfg_residual config \<and> 0 < layer then ResidualCell cell0 else cell0"
  have "stack_loop C config prefix layers (rnn @ [?cell]) = Inr rnn'"
    using Cons.prems(1,3) c0 by (simp add: Let_def)
  moreover have "\<not> list_ex has_dropout (rnn @ [?cell])"
    using Cons.prems(2) nd by (simp add: list_ex_iff)
  ultimately show ?case
    using Cons.IH[OF Cons.prems(1)] by blast
qed


lemma lstm_repeat:
  assumes "- 1 \<le> bc_counter (lnl_base cell)"
  shows "second_call LayerNormLSTMCell_call E cell x states
           = outputs (LayerNormLSTMCell_call E cell x states)"
proof (cases "bc_counter (lnl_base cell) = - 1")
  case True
  then show ?thesis
    by (simp add: second_call_def LayerNormLSTMCell_call_def bindE_def py_get_def outputs_def
          Let_def)
next
  case False
  with assms have "bc_counter (lnl_base cell) + 1 \<noteq> 0" "bc_counter (lnl_base cell) + 1 + 1 \<noteq> 0"
    by simp_all
  then show ?thesis
    by (simp add: second_call_def LayerNormLSTMCell_call_def bindE_def py_get_def outputs_def
          Let_def split: option.splits)
qed


lemma per_gate_lstm_repeat:
  "second_call LayerNormPerGateLSTMCell_call E cell x states
     = outputs (LayerNormPerGateLSTMCell_call E cell x states)"
  by (simp add: second_call_def LayerNormPerGateLSTMCell_call_def bindE_def py_get_def
        outputs_def Let_def)

lemma gru_repeat:
  assumes "- 1 \<le> bc_counter (lng_base cell)"
  shows "second_call LayerNormGRUCell_call E cell x states
           = outputs (LayerNormGRUCell_call E cell x states)"
proof (cases "bc_counter (lng_base cell) = - 1")
  case True
  then show ?thesis
    by (simp add: second_call_def LayerNormGRUCell_call_def bindE_def py_get_def outputs_def
          Let_def)
next
  case False
  with assms have "bc_counter (lng_base cell) + 1 \<noteq> 0" "bc_counter (lng_base cell) + 1 + 1 \<noteq> 0"
    by simp_all
  then show ?thesis
    by (simp add: second_call_def LayerNormGRUCell_call_def bindE_def py_get_def outputs_def
          Let_def split: option.splits)
qed

lemma per_gate_gru_repeat:
  "second_call LayerNormPerGateGRUCell_call E cell x states
     = outputs (LayerNormPerGateGRUCell_call E cell x states)"
  by (simp add: second_call_def LayerNormPerGateGRUCell_call_def bindE_def py_get_def
        outputs_def Let_def)

lemma stack_no_dropout:
  assumes "cfg_dropout config \<le> 0" and "get_stacked_rnn C config prefix = Inr rnn"
  shows "\<not> list_ex has_dropout rnn"
  using stack_loop_no_dropout[OF assms(1) _ assms(2)[unfolded get_stacked_rnn_def]] by simp

text \<open>
  C8. With a dropout rate of 0 the attention and the feed-forward sublayer do not depend on
  the random draw of the dropout operator: two runs with the same weights and inputs return
  the same result, whatever the draws. A second run of any of the four cells with the same
  weights, input and states, on the cell as the first run left it, returns what the first
  run returned. A stack built with a dropout rate of 0 holds no dropout cell.
\<close>

theorem dropout_zero_deterministic:
  "(mha_dropout att = 0 \<longrightarrow>
      MultiHeadAttention_on E keep1 att inputs inputs_length len
        = MultiHeadAttention_on E keep2 att inputs inputs_length len)
   \<and> (ffn_dropout ffn = 0 \<longrightarrow>
        FFNRelu_apply E keep1 ffn inputs len = FFNRelu_apply E keep2 ffn inputs len)
   \<and> (- 1 \<le> bc_counter (lnl_base lstm) \<longrightarrow>
        second_call LayerNormLSTMCell_call E lstm x states
          = outputs (LayerNormLSTMCell_call E lstm x states))
   \<and> second_call LayerNormPerGateLSTMCell_call E lstm_g x states
        = outputs (LayerNormPerGateLSTMCell_call E lstm_g x states)
   \<and> (- 1 \<le> bc_counter (lng_base gru) \<longrightarrow>
        second_call LayerNormGRUCell_call E gru x states
          = outputs (LayerNormGRUCell_call E gru x states))
   \<and> second_call LayerNormPerGateGRUCell_call E gru_g x states
        = outputs (LayerNormPerGateGRUCell_call E gru_g x states)
   \<and> (cfg_dropout config = 0 \<and> get_stacked_rnn C config prefix = Inr rnn \<longrightarrow>
        \<not> list_ex has_dropout rnn)"
proof (intro conjI impI)
  assume "mha_dropout att = 0"
  then show "MultiHeadAttention_on E keep1 att inputs inputs_length len
        = MultiHeadAttention_on E keep2 att inputs inputs_length len"
    by (intro attend_no_dropout) simp
next
  assume "ffn_dropout ffn = 0"
  then show "FFNRelu_apply E keep1 ffn inputs len = FFNRelu_apply E keep2 ffn inputs len"
    by (intro ffn_no_dropout) simp
next
  assume "- 1 \<le> bc_counter (lnl_base lstm)"
  then show "second_call LayerNormLSTMCell_call E lstm x states
          = outputs (LayerNormLSTMCell_call E lstm x states)"
    by (rule lstm_repeat)
next
  show "second_call LayerNormPerGateLSTMCell_call E lstm_g x states
        = outputs (LayerNormPerGateLSTMCell_call E lstm_g x states)"
    by (rule per_gate_lstm_repeat)
next
  assume "- 1 \<le> bc_counter (lng_base gru)"
  then show "second_call LayerNormGRUCell_call E gru x states
          = outputs (LayerNormGRUCell_call E gru x states)"
    by (rule gru_repeat)
next
  show "second_call LayerNormPerGateGRUCell_call E gru_g x states
        = outputs (LayerNormPerGateGRUCell_call E gru_g x states)"
    by (rule per_gate_gru_repeat)
next
  assume "cfg_dropout config = 0 \<and> get_stacked_rnn C config prefix = Inr rnn"
  then show "\<not> list_ex has_dropout rnn"
    by (intro stack_no_dropout[of config C prefix]) simp_all
qed

lemma example_stack:
  "get_stacked_rnn example_constants (example_config ''lstm'' 1) ''rnn_''
     = Inr [LSTMCell (LSTMCell_init 3 ''rnn_l0_'' 0)]"
proof -
  have "show_nat 0 = ''0''" by code_simp
  then show ?thesis
    by (simp add: get_stacked_rnn_def example_config_def example_constants_def make_cell_def)
qed

lemma example_counters:
  "bc_counter (lnl_base example_lstm) = - 1" "bc_counter (lng_base example_gru) = - 1"
  by (simp_all add: example_lstm_def example_gru_def LSTMCell_init_def GRUCell_init_def
        RNNParams_get_def RNNParams_init_def Let_def)

theorem dropout_zero_deterministic_witness:
  "mha_dropout example_attention = 0
   \<and> MultiHeadAttention_on example_env (\<lambda>k. True) example_attention example_x example_x 2
       = MultiHeadAttention_on example_env (\<lambda>k. False) example_attention example_x example_x 2
   \<and> ffn_dropout (FFNRelu_init ''ffn_'' 4 2 0) = 0
   \<and> FFNRelu_apply example_env (\<lambda>k. True) (FFNRelu_init ''ffn_'' 4 2 0) example_x 2
       = FFNRelu_apply example_env (\<lambda>k. False) (FFNRelu_init ''ffn_'' 4 2 0) example_x 2
   \<and> - 1 \<le> bc_counter (lnl_base example_lstm)
   \<and> second_call LayerNormLSTMCell_call example_env example_lstm example_x [example_x, example_x]
       = outputs (LayerNormLSTMCell_call example_env example_lstm example_x [example_x, example_x])
   \<and> - 1 \<le> bc_counter (lng_base example_gru)
   \<and> second_call LayerNormGRUCell_call example_env example_gru example_x [example_x, example_x]
       = outputs (LayerNormGRUCell_call example_env example_gru example_x [example_x, example_x])
   \<and> cfg_dropout (example_config ''lstm'' 1) = 0
   \<and> get_stacked_rnn example_constants (example_config ''lstm'' 1) ''rnn_''
        = Inr [LSTMCell (LSTMCell_init 3 ''rnn_l0_'' 0)]
   \<and> \<not> list_ex has_dropout [LSTMCell (LSTMCell_init 3 ''rnn_l0_'' 0)]"
proof -
  have a: "mha_dropout example_attention = 0"
    by (simp add: example_attention_def)
  have f: "ffn_dropout (FFNRelu_init ''ffn_'' 4 2 0) = 0"
    by (simp add: FFNRelu_init_def)
  have d: "cfg_dropout (example_config ''lstm'' 1) = 0"
    by (simp add: example_config_def)
  from dropout_zero_deterministic
         [of example_attention example_env "\<lambda>k. True" example_x example_x 2 "\<lambda>k. False"
             "FFNRelu_init ''ffn_'' 4 2 0" example_lstm example_x "[example_x, example_x]"
             _ example_gru _ "example_config ''lstm'' 1" example_constants
             "''rnn_''" "[LSTMCell (LSTMCell_init 3 ''rnn_l0_'' 0)]"]
       a f d example_stack example_counters
  show ?thesis by simp
qed

section \<open>Attention with length masking\<close>

lemma SequenceMask_negative_length:
  "valid_index (shape d) ix \<Longrightarrow> dat l ! (ix ! 1) \<le> - 1 \<Longrightarrow>
   elem (SequenceMask d l v) ix = elem d ix"
proof -
  assume v: "valid_index (shape d) ix" and n: "dat l ! (ix ! 1) \<le> - 1"
  from n have "\<lceil>dat l ! (ix ! 1)\<rceil> \<le> - 1"
    by (simp add: ceiling_le_iff)
  with n v show ?thesis
    by (simp add: SequenceMask_def elem_tabulate seq_pos_def Let_def)
qed

lemma broadcast_lengths_column:
  "shape x = [B, 1] \<Longrightarrow> broadcast_lengths x heads = Inl MXNetError"
  by (simp add: broadcast_lengths_def broadcast_to_def expand_dims_def)

lemma mask_logits_column:
  "shape valid_length = [B, 1] \<Longrightarrow> mask_logits logits valid_length heads = Inl MXNetError"
  by (simp add: mask_logits_def Let_def broadcast_lengths_column)

lemma reshape_flatten:
  assumes "shape x = [B, L, D]" "0 < B" "0 < L" "0 < D"
  shows "reshape x [- 3, - 1] = Inr (x\<lparr>shape := [B * L, D]\<rparr>)"
  using assms by (simp add: reshape_def infer_dims_def)

lemma reshape_unflatten:
  assumes "shape y = [B * L, n]" "0 < B" "0 < L" "0 < n"
  shows "reshape y [- 1, int L, int n] = Inr (y\<lparr>shape := [B, L, n]\<rparr>)"
  using assms by (simp add: reshape_def infer_dims_def)

lemma shape_split_part:
  "shape (split_part t k axis j) = (shape t)[axis := shape t ! axis div k]"
  by (simp add: split_part_def Let_def)

lemma shape_batch_dot:
  "shape (batch_dot lhs rhs tb) = [shape lhs ! 0, shape lhs ! 1, shape rhs ! (if tb then 1 else 2)]"
  by (simp add: batch_dot_def)

lemma shape_softmax [simp]: "shape (softmax t) = shape t"
  by (simp add: softmax_def)

lemma shape_Dropout [simp]: "shape (Dropout keep t p) = shape t"
  by (simp add: Dropout_def)

lemma pow_minus_half_pos: "0 < p \<Longrightarrow> pow_minus_half (int p) = Inr (1 / sqrt (real p))"
  by (simp add: pow_minus_half_def)

lemma split_heads_spec:
  assumes "shape x = [B, L, h * p]" "0 < B" "0 < L" "0 < h" "0 < p"
  shows "split_heads x (int L) (int h) = Inr (spec_split_heads x B L h p)"
  unfolding spec_split_heads_def by (rule split_heads_value[OF assms])

lemma combine_heads_spec:
  assumes "shape y = [B * h, L, p]" "0 < B" "0 < L" "0 < h" "0 < p"
  shows "combine_heads y (int L) (int h) = Inr (spec_combine_heads y B L h p)"
  unfolding spec_combine_heads_def by (rule combine_heads_value[OF assms])

lemma shape_spec_split_heads [simp]: "shape (spec_split_heads x B L h p) = [B * h, L, p]"
  by (simp add: spec_split_heads_def)

lemma shape_spec_combine_heads [simp]: "shape (spec_combine_heads x B L h p) = [B, L, h * p]"
  by (simp add: spec_combine_heads_def)


lemma attend_front:
  assumes sh: "shape inputs = [B, L, Din]"
    and pos: "0 < B" "0 < L" "0 < Din" "0 < h" "0 < p"
    and d: "mha_depth self = int (h * p)" and hh: "mha_heads self = int h"
    and dp: "mha_depth_per_head self = int p"
    and qkv: "spec_attend_qkv E self inputs B L Din h p = (q, k, v)"
  shows "MultiHeadAttention_on E keep self inputs inputs_length (int L) =
           bindE (mask_logits (batch_dot q k True) inputs_length (int h)) (\<lambda>logits.
             let probs = softmax logits;
                 probs = (if mha_dropout self > 0 then Dropout keep probs (mha_dropout self)
                          else probs);
                 contexts = batch_dot probs v False
             in bindE (combine_heads contexts (int L) (int h)) (\<lambda>contexts.
                if mha_depth_out self \<noteq> mha_depth self then
                  bindE (reshape contexts [- 3, - 1]) (\<lambda>contexts.
                  let contexts = FullyConnected contexts (value_of E (mha_w_h2o self))
                                   (value_of E (mha_b_h2o self)) (nat (mha_depth_out self))
                  in reshape contexts [- 1, int L, mha_depth_out self])
                else Inr contexts))"
proof -
  define flat where "flat = inputs\<lparr>shape := [B * L, Din]\<rparr>"
  define c0 where "c0 = FullyConnected flat (value_of E (mha_w_i2h self))
                          (value_of E (mha_b_i2h self)) (3 * (h * p))"
  define combined where "combined = c0\<lparr>shape := [B, L, 3 * (h * p)]\<rparr>"
  define query where "query = map_tensor (\<lambda>a. a * (1 / sqrt (real p))) (split_part combined 3 2 0)"
  define key where "key = split_part combined 3 2 1"
  define val where "val = split_part combined 3 2 2"
  have hp: "0 < h * p" using pos by simp
  have n3: "nat (mha_depth self * 3) = 3 * (h * p)"
    by (simp add: d nat_mult_distrib)
  have i3: "mha_depth self * 3 = int (3 * (h * p))"
    by (simp add: d)
  have r1: "reshape inputs [- 3, - 1] = Inr flat"
    unfolding flat_def by (rule reshape_flatten[OF sh pos(1,2,3)])
  have c0s: "shape c0 = [B * L, 3 * (h * p)]"
    by (simp add: c0_def flat_def)
  have r2: "reshape c0 [- 1, int L, int (3 * (h * p))] = Inr combined"
    unfolding combined_def using hp by (intro reshape_unflatten[OF c0s pos(1,2)]) simp
  have cs: "shape combined = [B, L, 3 * (h * p)]"
    by (simp add: combined_def)
  have ps: "shape (split_part combined 3 2 j) = [B, L, h * p]" for j
    by (simp add: shape_split_part cs)
  have parts: "split combined 3 2 ! 0 = split_part combined 3 2 0"
    "split combined 3 2 ! 1 = split_part combined 3 2 1"
    "split combined 3 2 ! 2 = split_part combined 3 2 2"
    by (simp_all add: split_nth)
  have qs: "shape query = [B, L, h * p]"
    by (simp add: query_def ps)
  have sq: "split_heads query (int L) (int h) = Inr (spec_split_heads query B L h p)"
    by (rule split_heads_spec[OF qs pos(1,2,4,5)])
  have sk: "split_heads key (int L) (int h) = Inr (spec_split_heads key B L h p)"
    unfolding key_def by (rule split_heads_spec[OF ps pos(1,2,4,5)])
  have sv: "split_heads val (int L) (int h) = Inr (spec_split_heads val B L h p)"
    unfolding val_def by (rule split_heads_spec[OF ps pos(1,2,4,5)])
  have q: "q = spec_split_heads query B L h p" and k: "k = spec_split_heads key B L h p"
    and v: "v = spec_split_heads val B L h p"
    using qkv
    by (simp_all add: spec_attend_qkv_def Let_def flat_def c0_def combined_def query_def
          key_def val_def)
  show ?thesis
    unfolding MultiHeadAttention_on_def Let_def
    by (simp only: r1 bindE_Inr i3 nat_int c0_def[symmetric] r2 parts dp hh
          pow_minus_half_pos[OF pos(5)] query_def[symmetric] key_def[symmetric]
          val_def[symmetric] sq sk sv q[symmetric] k[symmetric] v[symmetric])
qed


lemma attend_back:
  assumes ms: "shape masked = [B * h, L, L]" and vs: "shape v = [B * h, L, p]"
    and pos: "0 < B" "0 < L" "0 < h" "0 < p"
    and d: "mha_depth self = int (h * p)" and out: "0 < mha_depth_out self"
  shows "(let probs = softmax masked;
              probs = (if mha_dropout self > 0 then Dropout keep probs (mha_dropout self)
                       else probs);
              contexts = batch_dot probs v False
          in bindE (combine_heads contexts (int L) (int h)) (\<lambda>contexts.
             if mha_depth_out self \<noteq> mha_depth self then
               bindE (reshape contexts [- 3, - 1]) (\<lambda>contexts.
               let contexts = FullyConnected contexts (value_of E (mha_w_h2o self))
                                (value_of E (mha_b_h2o self)) (nat (mha_depth_out self))
               in reshape contexts [- 1, int L, mha_depth_out self])
             else Inr contexts))
         = Inr (spec_attend_rest E keep self masked v B L h p)"
proof -
  define probs where
    "probs = (if mha_dropout self > 0 then Dropout keep (softmax masked) (mha_dropout self)
              else softmax masked)"
  define c0 where "c0 = batch_dot probs v False"
  define c1 where "c1 = spec_combine_heads c0 B L h p"
  define c2 where "c2 = FullyConnected (c1\<lparr>shape := [B * L, h * p]\<rparr>)
                          (value_of E (mha_w_h2o self)) (value_of E (mha_b_h2o self))
                          (nat (mha_depth_out self))"
  have hp: "0 < h * p" using pos by simp
  have ps: "shape probs = [B * h, L, L]"
    by (simp add: probs_def ms)
  have c0s: "shape c0 = [B * h, L, p]"
    by (simp add: c0_def shape_batch_dot ps vs)
  have ch: "combine_heads c0 (int L) (int h) = Inr c1"
    unfolding c1_def by (rule combine_heads_spec[OF c0s pos])
  have c1s: "shape c1 = [B, L, h * p]"
    by (simp add: c1_def)
  have r1: "reshape c1 [- 3, - 1] = Inr (c1\<lparr>shape := [B * L, h * p]\<rparr>)"
    by (rule reshape_flatten[OF c1s pos(1,2) hp])
  have c2s: "shape c2 = [B * L, nat (mha_depth_out self)]"
    by (simp add: c2_def)
  have "reshape c2 [- 1, int L, int (nat (mha_depth_out self))]
          = Inr (c2\<lparr>shape := [B, L, nat (mha_depth_out self)]\<rparr>)"
    using out by (intro reshape_unflatten[OF c2s pos(1,2)]) simp
  then have r2: "reshape c2 [- 1, int L, mha_depth_out self]
          = Inr (c2\<lparr>shape := [B, L, nat (mha_depth_out self)]\<rparr>)"
    using out by simp
  have rest: "spec_attend_rest E keep self masked v B L h p =
          (if mha_depth_out self \<noteq> mha_depth self
           then c2\<lparr>shape := [B, L, nat (mha_depth_out self)]\<rparr> else c1)"
    unfolding spec_attend_rest_def Let_def probs_def[symmetric] c0_def[symmetric]
      c1_def[symmetric] c2_def[symmetric] ..
  show ?thesis
    unfolding Let_def probs_def[symmetric] c0_def[symmetric]
    by (simp only: ch bindE_Inr r1 c2_def[symmetric] r2 rest if_distrib[of Inr, symmetric])
qed


lemma MultiHeadAttention_init_fields:
  assumes "MultiHeadAttention_init prefix (int (h * p)) (int h) depth_out dropout = Inr self"
    and "0 < h"
  shows "mha_depth self = int (h * p)" and "mha_heads self = int h"
    and "mha_depth_per_head self = int p" and "mha_depth_out self = depth_out"
    and "mha_dropout self = dropout"
proof -
  have "int (h * p) div int h = int p"
    using assms(2) by (simp add: zdiv_int[symmetric] del: of_nat_mult)
  then show "mha_depth self = int (h * p)" and "mha_heads self = int h"
    and "mha_depth_per_head self = int p" and "mha_depth_out self = depth_out"
    and "mha_dropout self = dropout"
    using assms
    by (auto simp add: MultiHeadAttention_init_def check_condition_def split: if_splits)
qed

lemma shape_spec_attend_qkv:
  assumes "spec_attend_qkv E self inputs B L Din h p = (q, k, v)"
  shows "shape q = [B * h, L, p]" and "shape k = [B * h, L, p]" and "shape v = [B * h, L, p]"
  using assms by (auto simp add: spec_attend_qkv_def Let_def)


lemma example_attention_init:
  "MultiHeadAttention_init ''att_'' (int (2 * 2)) (int 2) 4 0 = Inr example_attention"
  by (simp add: MultiHeadAttention_init_def check_condition_def example_attention_def)



end
